theory Spec2Isabelle
  imports Complex_Main
begin

section \<open>The job registry of server.py\<close>

text \<open>
  Python text is a sequence of code points. Text that the summarizer inspects character
  by character (transcripts, summaries) is a list of code points; status messages, job
  identifiers, paths and exception messages, which are only stored and compared, are
  ordinary strings.
\<close>

type_synonym pystr = "nat list"

definition ustr :: "string \<Rightarrow> pystr" where
  "ustr s = map of_char s"

text \<open>
  The analysis result stored under the key "results": the transcript, the summary and
  the dictionary produced by the sentiment stage (kept as rendered key/value pairs).
\<close>

record results =
  transcript :: pystr
  summary :: pystr
  sentiment :: "(string \<times> string) list"

text \<open>
  One value of \<open>job_status\<close>: the dictionary written by \<open>process_audio\<close>
  (server.py, lines 272-280). Timestamps are readings of \<open>time.time()\<close>, taken
  as real numbers of seconds.
\<close>

record job =
  progress :: int
  message :: string
  created_at :: real
  updated_at :: real
  complete_flag :: bool
  error :: "string option"
  results :: "results option"

text \<open>
  An exception is identified by its class and the text \<open>str(e)\<close> gives for it.
  \<open>str\<close> of a KeyError is the repr of the missing key.
\<close>

datatype exn =
    KeyError string
  | ValueError string
  | FileNotFoundError string
  | TypeError string
  | ZeroDivisionError string
  | IndexError string
  | OtherError string

fun str_exn :: "exn \<Rightarrow> string" where
  "str_exn (KeyError k) = [CHR 0x27] @ k @ [CHR 0x27]"
| "str_exn (ValueError m) = m"
| "str_exn (FileNotFoundError m) = m"
| "str_exn (TypeError m) = m"
| "str_exn (ZeroDivisionError m) = m"
| "str_exn (IndexError m) = m"
| "str_exn (OtherError m) = m"

text \<open>
  The options model \<open>SummaryOptions\<close> (server.py, lines 61-63): two plain fields
  with defaults, no validator.
\<close>

record SummaryOptions =
  num_summary_points :: int
  summary_style :: string

definition default_options :: SummaryOptions where
  "default_options = \<lparr>num_summary_points = 5, summary_style = ''Bullets''\<rparr>"

text \<open>
  The search singleton \<open>meeting_search\<close> of search.py. The fitted TF-IDF
  vectorizer together with the sentence matrix is library state; what the search uses of
  it is the map from a query to the vector of dot products with the indexed sentences,
  which may raise.
\<close>

record MeetingSearch =
  vectorizer :: "(pystr \<Rightarrow> exn + real list) option"
  indexed_transcript :: "pystr option"
  sentences :: "pystr list"

text \<open>
  The process state the server code reads and writes: the global dictionary
  \<open>job_status\<close>, the lines \<open>update_status\<close> prints (job id, progress,
  message), the current reading of the wall clock, the temporary files written by the
  submission endpoint, the background tasks handed to the framework, and the search
  singleton.
\<close>

record world =
  job_status :: "string \<rightharpoonup> job"
  stdout :: "(string \<times> int \<times> string) list"
  now :: real
  files :: "string \<rightharpoonup> nat list"
  background_tasks :: "(string \<times> string \<times> SummaryOptions) list"
  meeting_search :: MeetingSearch

subsection \<open>update_status (server.py, lines 78-85)\<close>

definition update_status :: "string \<Rightarrow> int \<Rightarrow> string \<Rightarrow> world \<Rightarrow> world" where
  "update_status job_id p msg w =
     (case job_status w job_id of
        None \<Rightarrow> w
      | Some j \<Rightarrow>
          w\<lparr>job_status := (job_status w)(job_id \<mapsto>
                 j\<lparr>progress := p, message := msg, updated_at := now w\<rparr>),
             stdout := stdout w @ [(job_id, p, msg)]\<rparr>)"

text \<open>
  A subscript store \<open>job_status[job_id][key] = value\<close> (server.py, lines 156,
  157 and 168): the outer subscript is a dictionary read, which raises KeyError when the
  key is absent.
\<close>

definition set_field :: "string \<Rightarrow> (job \<Rightarrow> job) \<Rightarrow> world \<Rightarrow> (exn + unit) \<times> world" where
  "set_field job_id f w =
     (case job_status w job_id of
        None \<Rightarrow> (Inl (KeyError job_id), w)
      | Some j \<Rightarrow> (Inr (), w\<lparr>job_status := (job_status w)(job_id \<mapsto> f j)\<rparr>))"

subsection \<open>get_job_status (server.py, lines 288-314)\<close>

datatype http_exception = HTTPException nat string

datatype status_response =
    ErrorResponse string string
  | CompleteResponse "results option"
  | ProcessingResponse int string

text \<open>Truth value of an \<open>Optional[str]\<close> in a condition.\<close>

fun truthy :: "string option \<Rightarrow> bool" where
  "truthy None = False"
| "truthy (Some s) = (s \<noteq> [])"

definition get_job_status :: "string \<Rightarrow> world \<Rightarrow> http_exception + status_response" where
  "get_job_status job_id w =
     (case job_status w job_id of
        None \<Rightarrow> Inl (HTTPException 404 ''Job not found'')
      | Some status \<Rightarrow>
          if truthy (error status)
          then Inr (ErrorResponse (message status) (the (error status)))
          else if complete_flag status
          then Inr (CompleteResponse (results status))
          else Inr (ProcessingResponse (progress status) (message status)))"

subsection \<open>One tick of cleanup_old_jobs (server.py, lines 327-341)\<close>

text \<open>
  After each hourly sleep the loop reads the clock, collects the keys whose record is
  older than 86400 seconds, and deletes them. No suspension point lies between the read
  and the deletions, so one tick is one state transformer.
\<close>

definition keys_to_remove :: "world \<Rightarrow> string set" where
  "keys_to_remove w =
     {job_id. case job_status w job_id of
                None \<Rightarrow> False
              | Some status \<Rightarrow> now w - created_at status > 86400}"

definition cleanup_old_jobs_tick :: "world \<Rightarrow> world" where
  "cleanup_old_jobs_tick w =
     w\<lparr>job_status := (\<lambda>job_id.
          if job_id \<in> keys_to_remove w then None else job_status w job_id)\<rparr>"

section \<open>The pipeline executor of server.py\<close>

text \<open>
  A statement that may raise and may change the process state.
\<close>

type_synonym 'a act = "world \<Rightarrow> (exn + 'a) \<times> world"

definition seq :: "'a act \<Rightarrow> ('a \<Rightarrow> 'b act) \<Rightarrow> 'b act" where
  "seq m f w = (case m w of (Inl e, w') \<Rightarrow> (Inl e, w') | (Inr x, w') \<Rightarrow> f x w')"

definition effect :: "(world \<Rightarrow> world) \<Rightarrow> unit act" where
  "effect g w = (Inr (), g w)"

text \<open>
  Values found in the dictionary that \<open>check_audio_file\<close> returns, and their
  truth value in a condition.
\<close>

datatype pyval = PNone | PBool bool | PInt int | PStr string | PList "pyval list"

fun py_truthy :: "pyval \<Rightarrow> bool" where
  "py_truthy PNone = False"
| "py_truthy (PBool b) = b"
| "py_truthy (PInt i) = (i \<noteq> 0)"
| "py_truthy (PStr s) = (s \<noteq> [])"
| "py_truthy (PList xs) = (xs \<noteq> [])"

text \<open>
  The names server.py binds at import time (lines 13-31): the stage functions of the
  other modules, or the placeholders defined when their import fails. Each call is
  awaited on the thread pool, so while it runs the other tasks of the process (status
  polls, the reaper, other jobs) run too: a stage is a statement on the whole process
  state. \<open>transcribe_audio\<close> receives the progress callback. The last two fields
  are Python's own rendering of values inside the f-strings of lines 103 and 108; the
  second raises when a value does not accept its format.
\<close>

record stage_imports =
  check_audio_file_fn :: "string \<Rightarrow> (string \<rightharpoonup> pyval) act"
  convert_audio_to_wav_fn :: "string \<Rightarrow> string act"
  transcribe_audio_fn :: "string \<Rightarrow> (int \<Rightarrow> string \<Rightarrow> world \<Rightarrow> world) \<Rightarrow> pystr act"
  index_transcript_fn :: "pystr \<Rightarrow> bool act"
  summarize_text_fn :: "pystr \<Rightarrow> int \<Rightarrow> pystr act"
  analyze_sentiment_fn :: "pystr \<Rightarrow> ((string \<times> string) list) act"
  str_of :: "pyval \<Rightarrow> string"
  format_audio_file :: "(string \<rightharpoonup> pyval) \<Rightarrow> exn + string"

text \<open>
  \<open>str.replace(old, new)\<close>: the occurrences of \<open>old\<close> are replaced from left
  to right, without overlap.
\<close>

function replace_from :: "'a list \<Rightarrow> 'a list \<Rightarrow> 'a list \<Rightarrow> 'a list" where
  "replace_from old new [] = []"
| "replace_from old new (c # cs) =
     (if old \<noteq> [] \<and> take (length old) (c # cs) = old
      then new @ replace_from old new (drop (length old) (c # cs))
      else c # replace_from old new cs)"
  by pat_completeness auto
termination
  by (relation "measure (\<lambda>(old, new, s). length s)") auto

definition replace :: "'a list \<Rightarrow> 'a list \<Rightarrow> 'a list \<Rightarrow> 'a list" where
  "replace old new s =
     (if old = [] then new @ concat (map (\<lambda>c. c # new) s) else replace_from old new s)"

definition bullet :: nat where
  "bullet = 8226"

definition bullet_space :: pystr where
  "bullet_space = [bullet, 32]"

definition newline :: pystr where
  "newline = [10]"

definition space :: pystr where
  "space = [32]"

text \<open>Lines 142-146: the conversion to paragraph style.\<close>

definition to_paragraph :: "pystr \<Rightarrow> pystr" where
  "to_paragraph s = replace newline space (replace bullet_space [] s)"

definition apply_style :: "SummaryOptions \<Rightarrow> pystr \<Rightarrow> pystr" where
  "apply_style options s =
     (if summary_style options = ''Paragraph'' then to_paragraph s else s)"

text \<open>Lines 95-108: the format check and its report.\<close>

definition check_step :: "stage_imports \<Rightarrow> string \<Rightarrow> string \<Rightarrow> unit act" where
  "check_step I temp_audio_path job_id =
     seq (effect (update_status job_id 5 ''Checking audio file format...'')) (\<lambda>_.
     seq (check_audio_file_fn I temp_audio_path) (\<lambda>audio_info.
       case audio_info ''error'' of
         Some err \<Rightarrow>
           if py_truthy err
           then effect (update_status job_id 10 (''Audio needs conversion: '' @ str_of I err))
           else (\<lambda>w. case format_audio_file I audio_info of
                        Inl e \<Rightarrow> (Inl e, w)
                      | Inr line \<Rightarrow> (Inr (), update_status job_id 10 line w))
       | None \<Rightarrow>
           (\<lambda>w. case format_audio_file I audio_info of
                   Inl e \<Rightarrow> (Inl e, w)
                 | Inr line \<Rightarrow> (Inr (), update_status job_id 10 line w))))"

text \<open>
  Lines 111-118: the conversion in its own try block. The handler resets the progress
  to 0 and raises a ValueError in place of the caught exception.
\<close>

definition convert_step :: "stage_imports \<Rightarrow> string \<Rightarrow> string \<Rightarrow> string act" where
  "convert_step I temp_audio_path job_id w =
     (case convert_audio_to_wav_fn I temp_audio_path
             (update_status job_id 15 ''Converting audio to proper format...'' w) of
        (Inr wav_path, w') \<Rightarrow>
          (Inr wav_path, update_status job_id 20 ''Audio converted successfully'' w')
      | (Inl e, w') \<Rightarrow>
          (Inl (ValueError (''Audio conversion failed: '' @ str_exn e)),
           update_status job_id 0 (''Audio conversion failed: '' @ str_exn e) w'))"

text \<open>
  Lines 122-161: transcription with the callback \<open>status_callback\<close>, which is
  \<open>update_status\<close> on this job, then indexing, summary, sentiment and the final
  stores.
\<close>

definition analysis_steps :: "stage_imports \<Rightarrow> string \<Rightarrow> string \<Rightarrow> SummaryOptions \<Rightarrow> unit act" where
  "analysis_steps I wav_path job_id options =
     seq (effect (update_status job_id 25 ''Starting transcription...'')) (\<lambda>_.
     seq (transcribe_audio_fn I wav_path (update_status job_id)) (\<lambda>transcript.
     seq (effect (update_status job_id 80 ''Transcription complete. Generating summary...'')) (\<lambda>_.
     seq (index_transcript_fn I transcript) (\<lambda>_.
     seq (summarize_text_fn I transcript (num_summary_points options)) (\<lambda>summary0.
     seq (effect (update_status job_id 90 ''Analyzing sentiment...'')) (\<lambda>_.
     seq (analyze_sentiment_fn I transcript) (\<lambda>sentiment.
     seq (effect (update_status job_id 100 ''Processing complete'')) (\<lambda>_.
     seq (set_field job_id (\<lambda>j. j\<lparr>complete_flag := True\<rparr>)) (\<lambda>_.
     set_field job_id (\<lambda>j. j\<lparr>results := Some
        \<lparr>transcript = transcript, summary = apply_style options summary0,
         sentiment = sentiment\<rparr>\<rparr>))))))))))"

text \<open>
  Lines 89-161: the body of the outer try block, which is the three groups of steps in
  sequence; an exception of one of them leaves the block.
\<close>

definition try_block :: "stage_imports \<Rightarrow> string \<Rightarrow> string \<Rightarrow> SummaryOptions \<Rightarrow> unit act" where
  "try_block I temp_audio_path job_id options =
     seq (check_step I temp_audio_path job_id) (\<lambda>_.
     seq (convert_step I temp_audio_path job_id) (\<lambda>wav_path.
     analysis_steps I wav_path job_id options))"

text \<open>Lines 163-168: the handler of the outer try block.\<close>

definition on_exception :: "string \<Rightarrow> exn \<Rightarrow> unit act" where
  "on_exception job_id e =
     seq (effect (update_status job_id 0 (''Error: '' @ str_exn e))) (\<lambda>_.
     set_field job_id (\<lambda>j. j\<lparr>error := Some (str_exn e)\<rparr>))"

text \<open>
  Lines 169-177: the finally block removes the upload and, when it is bound and
  different, the converted file. \<open>wav_path\<close> is unbound when the format check
  raised; the NameError this causes is caught and printed inside the block.
\<close>

definition cleanup_files :: "string \<Rightarrow> string option \<Rightarrow> world \<Rightarrow> world" where
  "cleanup_files temp_audio_path wav_path w =
     (case wav_path of
        None \<Rightarrow> w\<lparr>files := (files w)(temp_audio_path := None)\<rparr>
      | Some p \<Rightarrow> w\<lparr>files := ((files w)(temp_audio_path := None))(p := None)\<rparr>)"

definition process_audio_task :: "stage_imports \<Rightarrow> string \<Rightarrow> string \<Rightarrow> SummaryOptions \<Rightarrow> unit act" where
  "process_audio_task I temp_audio_path job_id options w =
     (case check_step I temp_audio_path job_id w of
        (Inl e, w1) \<Rightarrow>
          (case on_exception job_id e w1 of
             (r, w2) \<Rightarrow> (r, cleanup_files temp_audio_path None w2))
      | (Inr _, w1) \<Rightarrow>
          (case convert_step I temp_audio_path job_id w1 of
             (Inl e, w2) \<Rightarrow>
               (case on_exception job_id e w2 of
                  (r, w3) \<Rightarrow> (r, cleanup_files temp_audio_path (Some temp_audio_path) w3))
           | (Inr wav_path, w2) \<Rightarrow>
               (case analysis_steps I wav_path job_id options w2 of
                  (Inl e, w3) \<Rightarrow>
                    (case on_exception job_id e w3 of
                       (r, w4) \<Rightarrow> (r, cleanup_files temp_audio_path (Some wav_path) w4))
                | (Inr _, w3) \<Rightarrow>
                    (Inr (), cleanup_files temp_audio_path (Some wav_path) w3))))"

section \<open>The transcription stage of transcription.py\<close>

text \<open>
  What \<open>transcribe_audio\<close> asks of its environment: the file system, the
  diagnostic dictionary of \<open>check_audio_file\<close>, the converter, the AssemblyAI
  client, and Python's rendering of values inside the f-strings of lines 190 and 193
  (the second raises on a missing key or a value that does not accept its format).
\<close>

record aai_transcript =
  status_is_error :: bool
  error_attr :: "string option"
  text_attr :: pystr

record transcription_env =
  path_exists :: "string \<Rightarrow> bool"
  getsize :: "string \<Rightarrow> int"
  check_audio :: "string \<Rightarrow> (string \<rightharpoonup> pyval)"
  convert :: "string \<Rightarrow> exn + string"
  new_transcriber :: "exn option"
  aai_transcribe :: "string \<Rightarrow> exn + aai_transcript"
  str_value :: "pyval \<Rightarrow> string"
  format_valid_line :: "(string \<rightharpoonup> pyval) \<Rightarrow> exn + string"

text \<open>
  The dictionary \<open>check_audio_file\<close> of check_audio.py builds (lines 13-20) has these
  six keys and no other; the function fills them in and returns the dictionary.
\<close>

record check_results =
  file_exists :: bool
  file_size :: int
  mime_type :: "string option"
  file_extension :: "string option"
  readable :: bool
  issues :: "string list"

definition opt_str :: "string option \<Rightarrow> pyval" where
  "opt_str v = (case v of None \<Rightarrow> PNone | Some s \<Rightarrow> PStr s)"

definition results_dict :: "check_results \<Rightarrow> (string \<rightharpoonup> pyval)" where
  "results_dict r =
     [''file_exists'' \<mapsto> PBool (file_exists r),
      ''file_size'' \<mapsto> PInt (file_size r),
      ''mime_type'' \<mapsto> opt_str (mime_type r),
      ''file_extension'' \<mapsto> opt_str (file_extension r),
      ''readable'' \<mapsto> PBool (readable r),
      ''issues'' \<mapsto> PList (map PStr (issues r))]"

text \<open>
  \<open>status_callback\<close> is optional; every report is guarded by
  \<open>if status_callback\<close>.
\<close>

definition report :: "(int \<Rightarrow> string \<Rightarrow> 'w \<Rightarrow> 'w) option \<Rightarrow> int \<Rightarrow> string \<Rightarrow> 'w \<Rightarrow> 'w" where
  "report status_callback p msg w =
     (case status_callback of None \<Rightarrow> w | Some f \<Rightarrow> f p msg w)"

text \<open>
  Lines 228-263: the call of the service inside a try block whose handler reports
  progress 0 and raises the caught exception again. A transcript in error status raises
  inside the same block.
\<close>

definition call_service ::
  "transcription_env \<Rightarrow> string \<Rightarrow> (int \<Rightarrow> string \<Rightarrow> 'w \<Rightarrow> 'w) option \<Rightarrow> 'w \<Rightarrow> (exn + pystr) \<times> 'w" where
  "call_service E wav_audio_path cb w =
     (let w1 = report cb 30 ''Starting transcription with AssemblyAI SDK...'' w in
      case new_transcriber E of
        Some e \<Rightarrow> (Inl e, report cb 0 (''Transcription error: '' @ str_exn e) w1)
      | None \<Rightarrow>
          (let w2 = report cb 40 ''Submitting audio for transcription...'' w1 in
           case aai_transcribe E wav_audio_path of
             Inl e \<Rightarrow> (Inl e, report cb 0 (''Transcription error: '' @ str_exn e) w2)
           | Inr t \<Rightarrow>
               if status_is_error t
               then (let error_message = ''Transcription failed: '' @
                           (case error_attr t of None \<Rightarrow> ''Unknown error'' | Some m \<Rightarrow> m)
                     in (Inl (OtherError error_message),
                         report cb 0 (''Transcription error: '' @ error_message)
                           (report cb 0 error_message w2)))
               else (Inr (text_attr t),
                     report cb 100 ''Transcription completed successfully!'' w2)))"

text \<open>Lines 195-210: the conversion and the check of the converted file.\<close>

definition convert_and_verify ::
  "transcription_env \<Rightarrow> string \<Rightarrow> (int \<Rightarrow> string \<Rightarrow> 'w \<Rightarrow> 'w) option \<Rightarrow> 'w \<Rightarrow> (exn + pystr) \<times> 'w" where
  "convert_and_verify E audio_path cb w =
     (case convert E audio_path of
        Inl e \<Rightarrow>
          (Inl (ValueError (''Failed to convert audio format: '' @ str_exn e)),
           report cb 0 (''Audio conversion failed: '' @ str_exn e) w)
      | Inr wav_audio_path \<Rightarrow>
          (let w1 = report cb 15 ''Audio converted to WAV format successfully'' w in
           case check_audio E wav_audio_path ''error'' of
             None \<Rightarrow> (Inl (KeyError ''error''), w1)
           | Some err \<Rightarrow>
               if py_truthy err
               then (Inl (ValueError (''WAV conversion produced invalid file: '' @ str_value E err)),
                     report cb 0 (''WAV conversion produced invalid file: '' @ str_value E err) w1)
               else call_service E wav_audio_path cb w1))"

text \<open>
  Lines 168-193. The subscript \<open>audio_info["error"]\<close> of line 188 raises KeyError
  when the dictionary has no such key.
\<close>

definition transcribe_audio ::
  "transcription_env \<Rightarrow> string \<Rightarrow> (int \<Rightarrow> string \<Rightarrow> 'w \<Rightarrow> 'w) option \<Rightarrow> 'w \<Rightarrow> (exn + pystr) \<times> 'w" where
  "transcribe_audio E audio_path cb w =
     (let w1 = report cb 5 ''Preparing audio for transcription...'' w in
      if \<not> path_exists E audio_path
      then (Inl (FileNotFoundError (''Audio file not found: '' @ audio_path)),
            report cb 0 (''Audio file not found: '' @ audio_path) w1)
      else if getsize E audio_path = 0
      then (Inl (ValueError ''Audio file is empty (0 bytes)''),
            report cb 0 ''Audio file is empty (0 bytes)'' w1)
      else
        (let w2 = report cb 8 ''Checking audio file format...'' w1;
             audio_info = check_audio E audio_path in
         case audio_info ''error'' of
           None \<Rightarrow> (Inl (KeyError ''error''), w2)
         | Some err \<Rightarrow>
             if py_truthy err
             then convert_and_verify E audio_path cb
                    (report cb 10 (''Converting audio to WAV format (original had issues: '' @
                                   str_value E err @ '')'') w2)
             else
               (case cb of
                  None \<Rightarrow> convert_and_verify E audio_path cb w2
                | Some f \<Rightarrow>
                    (case format_valid_line E audio_info of
                       Inl e \<Rightarrow> (Inl e, w2)
                     | Inr line \<Rightarrow> convert_and_verify E audio_path cb (f 10 line w2)))))"

section \<open>The submission endpoint of server.py\<close>

subsection \<open>get_options (lines 69-76)\<close>

text \<open>
  What \<open>json.loads\<close> returns. An object is the list of its members, a later
  duplicate of a key already dropped, as the parser builds the dictionary.
\<close>

datatype json =
    JNull
  | JBool bool
  | JInt int
  | JFloat real
  | JStr string
  | JArr "json list"
  | JObj "(string \<times> json) list"

text \<open>
  The validation pydantic runs for a field. A JSON integer is accepted by an \<open>int\<close>
  field and a JSON string by a \<open>str\<close> field, as they are. What it does with a value
  of another JSON type (accept after conversion, or reject) differs between its versions
  and is left to two parameters.
\<close>

record pydantic =
  coerce_int :: "json \<Rightarrow> int option"
  coerce_str :: "json \<Rightarrow> string option"

fun validate_int :: "pydantic \<Rightarrow> json \<Rightarrow> int option" where
  "validate_int V (JInt n) = Some n"
| "validate_int V v = coerce_int V v"

fun validate_str :: "pydantic \<Rightarrow> json \<Rightarrow> string option" where
  "validate_str V (JStr s) = Some s"
| "validate_str V v = coerce_str V v"

text \<open>
  A field absent from the keyword arguments takes its default; a present one is
  validated; keys that name no field are ignored.
\<close>

definition int_field :: "pydantic \<Rightarrow> json option \<Rightarrow> int \<Rightarrow> int option" where
  "int_field V v d = (case v of None \<Rightarrow> Some d | Some x \<Rightarrow> validate_int V x)"

definition str_field :: "pydantic \<Rightarrow> json option \<Rightarrow> string \<Rightarrow> string option" where
  "str_field V v d = (case v of None \<Rightarrow> Some d | Some x \<Rightarrow> validate_str V x)"

text \<open>
  \<open>SummaryOptions(**options_dict)\<close>: a TypeError when the value is not a
  dictionary, a validation error when a field is rejected.
\<close>

fun construct_options :: "pydantic \<Rightarrow> json \<Rightarrow> exn + SummaryOptions" where
  "construct_options V (JObj kvs) =
     (case int_field V (map_of kvs ''num_summary_points'') 5 of
        None \<Rightarrow> Inl (ValueError ''validation error for SummaryOptions'')
      | Some n \<Rightarrow>
          (case str_field V (map_of kvs ''summary_style'') ''Bullets'' of
             None \<Rightarrow> Inl (ValueError ''validation error for SummaryOptions'')
           | Some s \<Rightarrow> Inr \<lparr>num_summary_points = n, summary_style = s\<rparr>))"
| "construct_options V v = Inl (TypeError ''argument after ** must be a mapping'')"

text \<open>
  \<open>get_options\<close> with the JSON parser as a parameter. The bare \<open>except\<close>
  turns every exception of the parser and of the constructor into the default options.
\<close>

definition get_options ::
  "(string \<Rightarrow> exn + json) \<Rightarrow> pydantic \<Rightarrow> string option \<Rightarrow> SummaryOptions" where
  "get_options json_loads V options =
     (case options of
        None \<Rightarrow> default_options
      | Some s \<Rightarrow>
          if s = [] then default_options
          else (case json_loads s of
                  Inl e \<Rightarrow> default_options
                | Inr options_dict \<Rightarrow>
                    (case construct_options V options_dict of
                       Inl e \<Rightarrow> default_options
                     | Inr opts \<Rightarrow> opts)))"

subsection \<open>process_audio (lines 179-286)\<close>

text \<open>\<open>str.split(sep)\<close> for a separator that is not empty.\<close>

function split_from :: "'a list \<Rightarrow> 'a list \<Rightarrow> 'a list \<Rightarrow> 'a list list" where
  "split_from sep cur [] = [rev cur]"
| "split_from sep cur (c # cs) =
     (if sep \<noteq> [] \<and> take (length sep) (c # cs) = sep
      then rev cur # split_from sep [] (drop (length sep) (c # cs))
      else split_from sep (c # cur) cs)"
  by pat_completeness auto
termination
  by (relation "measure (\<lambda>(sep, cur, s). length s)") auto

definition split :: "'a list \<Rightarrow> 'a list \<Rightarrow> 'a list list" where
  "split sep s = split_from sep [] s"

text \<open>\<open>str.lower()\<close> on the letters A to Z; other characters are kept.\<close>

definition lower_char :: "char \<Rightarrow> char" where
  "lower_char c =
     (if (65::nat) \<le> of_char c \<and> of_char c \<le> (90::nat)
      then char_of (of_char c + (32::nat)) else c)"

definition lower :: "string \<Rightarrow> string" where
  "lower s = map lower_char s"

definition known_extensions :: "string list" where
  "known_extensions = [''mp3'', ''wav'', ''m4a'', ''flac'', ''aac'', ''ogg'', ''mp4'', ''wma'']"

text \<open>Lines 207-212: the extension taken from the file name, when it has a dot.\<close>

definition filename_extension :: "string option \<Rightarrow> string option" where
  "filename_extension filename =
     (case filename of
        None \<Rightarrow> None
      | Some name \<Rightarrow>
          if name = [] then None
          else (let parts = split ''.'' name in
                if length parts > 1 then Some (lower (last parts)) else None))"

text \<open>Lines 217-234: the extension taken from the declared content type.\<close>

definition content_type_extension :: "string option \<Rightarrow> string" where
  "content_type_extension content_type =
     (case content_type of
        None \<Rightarrow> ''mp3''
      | Some ct \<Rightarrow>
          if ct \<noteq> [] \<and> CHR ''/'' \<in> set ct
          then (let mime_subtype = last (split ''/'' ct) in
                if mime_subtype \<in> set [''mpeg'', ''mp3''] then ''mp3''
                else if mime_subtype \<in> set [''wav'', ''x-wav'', ''wave''] then ''wav''
                else if mime_subtype \<in> set [''aac''] then ''aac''
                else if mime_subtype \<in> set [''ogg'', ''vorbis''] then ''ogg''
                else if mime_subtype \<in> set [''flac''] then ''flac''
                else ''mp3'')
          else ''mp3'')"

definition choose_extension :: "string option \<Rightarrow> string option \<Rightarrow> string" where
  "choose_extension filename content_type =
     (case filename_extension filename of
        None \<Rightarrow> content_type_extension content_type
      | Some ext \<Rightarrow>
          if ext = [] \<or> ext \<notin> set known_extensions
          then content_type_extension content_type
          else ext)"

text \<open>The record written at submission (server.py, lines 272-280).\<close>

definition new_job :: "real \<Rightarrow> job" where
  "new_job t =
     \<lparr>progress = 0, message = ''Job started'', created_at = t, updated_at = t,
      complete_flag = False, error = None, results = None\<rparr>"

text \<open>
  The upload and what the handler takes from its environment: the identifier
  \<open>uuid.uuid4()\<close> returns, the name \<open>NamedTemporaryFile\<close> gives for a suffix,
  and the exception, if any, that escapes the python-magic probe (lines 249-258, only
  ImportError is caught there) or \<open>validate_audio_file\<close> (lines 261-269).
\<close>

record upload =
  filename :: "string option"
  content_type :: "string option"
  file_content :: "nat list"

record submit_env =
  uuid4 :: string
  named_temporary_file :: "string \<Rightarrow> string"
  magic_probe :: "string \<Rightarrow> exn option"
  validation_probe :: "string \<Rightarrow> exn option"

datatype submit_result =
    Rejected http_exception
  | Unhandled exn
  | Accepted string string

definition process_audio ::
  "submit_env \<Rightarrow> upload \<Rightarrow> SummaryOptions \<Rightarrow> world \<Rightarrow> submit_result \<times> world" where
  "process_audio X file options w =
     (let job_id = uuid4 X;
          file_size = length (file_content file) in
      if file_size = 0
      then (Rejected (HTTPException 400 ''File is empty (0 bytes)''), w)
      else
        (let extension = choose_extension (filename file) (content_type file);
             temp_audio_path = named_temporary_file X (''.'' @ extension);
             w1 = w\<lparr>files := (files w)(temp_audio_path \<mapsto> file_content file)\<rparr> in
         case magic_probe X temp_audio_path of
           Some e \<Rightarrow> (Unhandled e, w1)
         | None \<Rightarrow>
             (case validation_probe X temp_audio_path of
                Some e \<Rightarrow> (Unhandled e, w1)
              | None \<Rightarrow>
                  (Accepted job_id ''processing'',
                   w1\<lparr>job_status := (job_status w1)(job_id \<mapsto> new_job (now w1)),
                      background_tasks :=
                        background_tasks w1 @ [(temp_audio_path, job_id, options)]\<rparr>))))"

section \<open>The search index of search.py\<close>

text \<open>\<open>str.isspace\<close> on one code point, and \<open>str.strip()\<close>.\<close>

definition isspace :: "nat \<Rightarrow> bool" where
  "isspace c \<longleftrightarrow>
     (9 \<le> c \<and> c \<le> 13) \<or> (28 \<le> c \<and> c \<le> 32) \<or> c = 133 \<or> c = 160 \<or> c = 5760
     \<or> (8192 \<le> c \<and> c \<le> 8202) \<or> c = 8232 \<or> c = 8233 \<or> c = 8239 \<or> c = 8287
     \<or> c = 12288"

definition strip :: "pystr \<Rightarrow> pystr" where
  "strip s = rev (dropWhile isspace (rev (dropWhile isspace s)))"

text \<open>
  The libraries the index is built with: the sentence tokenizer of NLTK, and the fitting
  of the TF-IDF vectorizer on the sentences, which yields the map from a query to its
  dot products with the sentence vectors.
\<close>

record search_env =
  sent_tokenize :: "pystr \<Rightarrow> exn + pystr list"
  tfidf_fit :: "pystr list \<Rightarrow> exn + (pystr \<Rightarrow> exn + real list)"

text \<open>
  \<open>MeetingSearch.index_transcript\<close> (lines 33-68). The transcript and the
  sentences are stored before the vectorizer is fitted; they stay stored when the
  method returns False.
\<close>

definition index_transcript :: "search_env \<Rightarrow> pystr \<Rightarrow> MeetingSearch \<Rightarrow> bool \<times> MeetingSearch" where
  "index_transcript E txt S =
     (if strip txt = [] then (False, S)
      else
        (let t = strip txt;
             sents = (case sent_tokenize E t of
                        Inr ss \<Rightarrow> ss
                      | Inl e \<Rightarrow> filter (\<lambda>s. s \<noteq> []) (map strip (split [46] t)));
             S1 = S\<lparr>indexed_transcript := Some t, sentences := sents\<rparr> in
         if sents = [] then (False, S1)
         else (case tfidf_fit E sents of
                 Inr v \<Rightarrow> (True, S1\<lparr>vectorizer := Some v\<rparr>)
               | Inl e \<Rightarrow> (False, S1\<lparr>vectorizer := None\<rparr>))))"

text \<open>
  \<open>numpy.argsort\<close>: the indices in ascending order of their values. The slice
  \<open>[-num_results:]\<close> keeps the last \<open>num_results\<close> of them (all of them when
  \<open>num_results\<close> is 0).
\<close>

definition argsort :: "real list \<Rightarrow> nat list" where
  "argsort similarity = sort_key (\<lambda>i. similarity ! i) [0..<length similarity]"

definition last_n :: "nat \<Rightarrow> 'a list \<Rightarrow> 'a list" where
  "last_n n xs = (if n = 0 then xs else drop (length xs - n) xs)"

text \<open>
  Lines 91-108, the body of the try block: the comprehension reads
  \<open>self.sentences[i]\<close> for every selected index of positive similarity and raises
  IndexError on an index past the end of the list.
\<close>

definition search_body ::
  "(pystr \<Rightarrow> exn + real list) \<Rightarrow> pystr list \<Rightarrow> pystr \<Rightarrow> nat \<Rightarrow> exn + (pystr \<times> real) list" where
  "search_body v sents query num_results =
     (case v query of
        Inl e \<Rightarrow> Inl e
      | Inr similarity \<Rightarrow>
          (let top_indices = rev (last_n num_results (argsort similarity));
               hits = filter (\<lambda>i. similarity ! i > 0) top_indices in
           if \<exists>i \<in> set hits. length sents \<le> i
           then Inl (IndexError ''list index out of range'')
           else if hits = []
           then Inr [(ustr ''No matching results found.'', 0)]
           else Inr (map (\<lambda>i. (sents ! i, similarity ! i)) hits)))"

text \<open>\<open>MeetingSearch.search\<close> (lines 70-110).\<close>

definition search :: "MeetingSearch \<Rightarrow> pystr \<Rightarrow> nat \<Rightarrow> exn + (pystr \<times> real) list" where
  "search S query num_results =
     (case vectorizer S of
        None \<Rightarrow> Inr [(ustr ''No transcript has been indexed yet.'', 0)]
      | Some v \<Rightarrow>
          if sentences S = [] then Inr [(ustr ''No transcript has been indexed yet.'', 0)]
          else if strip query = [] then Inr [(ustr ''Invalid search query.'', 0)]
          else (case search_body v (sentences S) (strip query) num_results of
                  Inr found \<Rightarrow> Inr found
                | Inl e \<Rightarrow> Inr [(ustr (''Search error: '' @ str_exn e), 0)]))"

text \<open>
  \<open>search_meeting\<close> (lines 155-166) on the singleton, as the endpoint
  \<open>search_transcript\<close> of server.py calls it (lines 316-319): five results.
\<close>

definition search_meeting :: "pystr \<Rightarrow> world \<Rightarrow> exn + (pystr \<times> real) list" where
  "search_meeting query w = search (meeting_search w) query 5"

definition search_transcript :: "pystr \<Rightarrow> world \<Rightarrow> exn + (pystr \<times> real) list" where
  "search_transcript query w = search_meeting query w"

section \<open>The summarizer of summarization.py\<close>

text \<open>
  The libraries and built-ins \<open>summarize_text\<close> calls: the sentence and word
  tokenizers and the stop-word list of NLTK, each of which may raise, and
  \<open>str.lower\<close> and \<open>str.isalnum\<close> on arbitrary text.
\<close>

record summarizer_env =
  sent_tokenizer :: "pystr \<Rightarrow> exn + pystr list"
  word_tokenize :: "pystr \<Rightarrow> exn + pystr list"
  stopwords :: "exn + pystr list"
  lower_text :: "pystr \<Rightarrow> pystr"
  isalnum :: "pystr \<Rightarrow> bool"

text \<open>\<open>sep.join(items)\<close> and the bullet list every return statement builds.\<close>

fun join :: "'a list \<Rightarrow> 'a list list \<Rightarrow> 'a list" where
  "join sep [] = []"
| "join sep [x] = x"
| "join sep (x # y # ys) = x @ sep @ join sep (y # ys)"

definition bullets :: "pystr list \<Rightarrow> pystr" where
  "bullets items = bullet_space @ join (newline @ bullet_space) items"

text \<open>\<open>str.split()\<close> without argument: the maximal runs of non-space characters.\<close>

fun split_ws_from :: "pystr \<Rightarrow> pystr \<Rightarrow> pystr list" where
  "split_ws_from cur [] = (if cur = [] then [] else [rev cur])"
| "split_ws_from cur (c # cs) =
     (if isspace c
      then (if cur = [] then split_ws_from [] cs else rev cur # split_ws_from [] cs)
      else split_ws_from (c # cur) cs)"

definition split_ws :: "pystr \<Rightarrow> pystr list" where
  "split_ws s = split_ws_from [] s"

text \<open>A slice \<open>xs[:n]\<close>; a negative \<open>n\<close> counts from the end.\<close>

definition slice_to :: "int \<Rightarrow> 'a list \<Rightarrow> 'a list" where
  "slice_to n xs = (if 0 \<le> n then take (nat n) xs else take (nat (int (length xs) + n)) xs)"

text \<open>Lines 71-86: the stop words used when the NLTK list cannot be loaded.\<close>

definition fallback_stop_words :: "pystr list" where
  "fallback_stop_words = map ustr
     [''i'', ''me'', ''my'', ''myself'', ''we'', ''our'', ''ours'', ''ourselves'',
      ''you'', ''your'', ''yours'', ''yourself'', ''yourselves'', ''he'', ''him'',
      ''his'', ''himself'', ''she'', ''her'', ''hers'', ''herself'', ''it'', ''its'',
      ''itself'', ''they'', ''them'', ''their'', ''theirs'', ''themselves'', ''what'',
      ''which'', ''who'', ''whom'', ''this'', ''that'', ''these'', ''those'', ''am'',
      ''is'', ''are'', ''was'', ''were'', ''be'', ''been'', ''being'', ''have'', ''has'',
      ''had'', ''having'', ''do'', ''does'', ''did'', ''doing'', ''a'', ''an'', ''the'',
      ''and'', ''but'', ''if'', ''or'', ''because'', ''as'', ''until'', ''while'', ''of'',
      ''at'', ''by'', ''for'', ''with'', ''about'', ''against'', ''between'', ''into'',
      ''through'', ''during'', ''before'', ''after'', ''above'', ''below'', ''to'',
      ''from'', ''up'', ''down'', ''in'', ''out'', ''on'', ''off'', ''over'', ''under'',
      ''again'', ''further'', ''then'', ''once'', ''here'', ''there'', ''when'',
      ''where'', ''why'', ''how'', ''all'', ''any'', ''both'', ''each'', ''few'',
      ''more'', ''most'', ''other'', ''some'', ''such'', ''no'', ''nor'', ''not'',
      ''only'', ''own'', ''same'', ''so'', ''than'', ''too'', ''very'', ''s'', ''t'',
      ''can'', ''will'', ''just'', ''don'', ''should'', ''now'']"

text \<open>
  Lines 93-96 and 119-122: the words of a sentence, by the NLTK tokenizer or, when it
  raises, by splitting at white space.
\<close>

definition words_of :: "summarizer_env \<Rightarrow> pystr \<Rightarrow> pystr list" where
  "words_of E sentence =
     (case word_tokenize E (lower_text E sentence) of
        Inr ws \<Rightarrow> ws
      | Inl e \<Rightarrow> split_ws (lower_text E sentence))"

text \<open>
  Lines 89-100: the words that enter the frequency table, one entry per occurrence.
  The table maps a word to the number of its entries.
\<close>

definition counted_words :: "summarizer_env \<Rightarrow> pystr list \<Rightarrow> pystr list" where
  "counted_words E sents =
     (let stop_words = (case stopwords E of Inr ws \<Rightarrow> ws | Inl e \<Rightarrow> fallback_stop_words)
      in filter (\<lambda>word. word \<notin> set stop_words \<and> isalnum E word)
           (concat (map (words_of E) sents)))"

text \<open>
  Lines 111-113: the frequencies divided by the largest of them. The quotient is a
  float in the source and a real number here.
\<close>

definition word_frequency :: "pystr list \<Rightarrow> pystr \<Rightarrow> real" where
  "word_frequency counted word =
     real (count_list counted word) /
     real (Max (set (map (count_list counted) counted)))"

text \<open>
  Lines 116-126: a sentence has a score when one of its words is in the table; the
  score is the sum of the frequencies of its words that are.
\<close>

definition scored :: "summarizer_env \<Rightarrow> pystr list \<Rightarrow> pystr list \<Rightarrow> nat \<Rightarrow> bool" where
  "scored E counted sents i \<longleftrightarrow> (\<exists>word \<in> set (words_of E (sents ! i)). word \<in> set counted)"

definition sentence_score :: "summarizer_env \<Rightarrow> pystr list \<Rightarrow> pystr list \<Rightarrow> nat \<Rightarrow> real" where
  "sentence_score E counted sents i =
     sum_list (map (word_frequency counted)
                 (filter (\<lambda>word. word \<in> set counted) (words_of E (sents ! i))))"

text \<open>
  \<open>heapq.nlargest(n, keys, key)\<close> is \<open>sorted(keys, key=key, reverse=True)[:n]\<close>:
  the keys in descending order of score, equal scores in their original order.
\<close>

definition nlargest :: "int \<Rightarrow> nat list \<Rightarrow> (nat \<Rightarrow> real) \<Rightarrow> nat list" where
  "nlargest n keys key = take (nat n) (sort_key (\<lambda>i. - key i) keys)"

text \<open>Lines 103-108: the selection when the frequency table is empty.\<close>

definition spread_selection :: "pystr list \<Rightarrow> int \<Rightarrow> exn + pystr" where
  "spread_selection sents num_sentences =
     (if num_sentences = 0 then Inl (ZeroDivisionError ''integer division or modulo by zero'')
      else
        (let step = max 1 (int (length sents) div num_sentences);
             selected_indices =
               slice_to num_sentences
                 (filter (\<lambda>i. int i mod step = 0) [0..<length sents])
         in Inr (bullets (map (\<lambda>i. sents ! i) selected_indices))))"

text \<open>Lines 129-136: the selection when no sentence has a score.\<close>

definition unscored_selection :: "pystr list \<Rightarrow> int \<Rightarrow> exn + pystr" where
  "unscored_selection sents num_sentences =
     (if length sents > 1
      then
        (if num_sentences - 1 = 0
            \<or> int (length sents) div (num_sentences - 1) + 1 = 0
         then Inl (ZeroDivisionError ''integer division or modulo by zero'')
         else
           (let m = int (length sents) div (num_sentences - 1) + 1;
                selected_indices =
                  0 # slice_to (num_sentences - 1)
                        (filter (\<lambda>i. int i mod m = 0) [1..<length sents])
            in Inr (bullets (map (\<lambda>i. sents ! i) selected_indices))))
      else Inr (bullets (map (\<lambda>i. sents ! i) [0])))"

text \<open>Lines 58-146: the body of the outer try block.\<close>

definition extractive_summary :: "summarizer_env \<Rightarrow> pystr \<Rightarrow> int \<Rightarrow> exn + pystr" where
  "extractive_summary E txt num_sentences =
     (case sent_tokenizer E txt of
        Inl e \<Rightarrow> Inl e
      | Inr sents \<Rightarrow>
          if int (length sents) \<le> num_sentences then Inr (bullets sents)
          else
            (let counted = counted_words E sents in
             if counted = [] then spread_selection sents num_sentences
             else
               (let keys = filter (scored E counted sents) [0..<length sents] in
                if keys = [] then unscored_selection sents num_sentences
                else
                  (let top_sentence_indices =
                         sort (nlargest num_sentences keys (sentence_score E counted sents))
                   in Inr (bullets (map (\<lambda>i. sents ! i) top_sentence_indices))))))"

text \<open>
  Lines 150-167: the handler of the outer try block splits at full stop and space and
  picks the first piece, pieces at a regular step, and the last piece.
\<close>

definition simple_summary :: "pystr \<Rightarrow> int \<Rightarrow> exn + pystr" where
  "simple_summary txt num_sentences =
     (let sents = split [46, 32] txt in
      if length sents \<le> 3 then Inr (bullets sents)
      else if num_sentences - 1 = 0
      then Inl (ZeroDivisionError ''integer division or modulo by zero'')
      else
        (let step = max 1 (int (length sents) div (num_sentences - 1));
             middle = filter (\<lambda>idx. idx < int (length sents))
                        (map (\<lambda>i. i * step) [1..num_sentences - 2]);
             selected = [sents ! 0] @ map (\<lambda>idx. sents ! nat idx) middle @
                        (if length sents > 1 then [last sents] else [])
         in Inr (bullets selected)))"

text \<open>Lines 168-173: the handler of the handler.\<close>

definition first_part :: "pystr \<Rightarrow> pystr" where
  "first_part txt =
     (if length txt > 500 then bullet_space @ take 500 txt @ ustr ''...''
      else bullet_space @ txt)"

text \<open>
  \<open>summarize_text\<close> (lines 35-173). The transcript is text here, so the test of
  line 50 is passed.
\<close>

definition summarize_text :: "summarizer_env \<Rightarrow> pystr \<Rightarrow> int \<Rightarrow> pystr" where
  "summarize_text E txt num_sentences =
     (if strip txt = [] then bullet_space @ ustr ''No transcript content to summarize''
      else
        (case extractive_summary E (strip txt) num_sentences of
           Inr s \<Rightarrow> s
         | Inl e \<Rightarrow>
             (case simple_summary (strip txt) num_sentences of
                Inr s \<Rightarrow> s
              | Inl e' \<Rightarrow> first_part (strip txt))))"

section \<open>The stage functions as the repository binds them\<close>

text \<open>
  When the imports of lines 13-18 succeed, the executor calls the functions of
  transcription.py, search.py, summarization.py and sentiment.py. The sentiment stage
  is a library computation that catches its own exceptions; it is taken as a function
  from the transcript to its report.
\<close>

record repo_env =
  transcription :: transcription_env
  search_libs :: search_env
  summarizer :: summarizer_env
  analyze_sentiment :: "pystr \<Rightarrow> (string \<times> string) list"
  format_audio_line :: "(string \<rightharpoonup> pyval) \<Rightarrow> exn + string"

definition repo_imports :: "repo_env \<Rightarrow> stage_imports" where
  "repo_imports R =
     \<lparr>check_audio_file_fn = (\<lambda>p w. (Inr (check_audio (transcription R) p), w)),
      convert_audio_to_wav_fn = (\<lambda>p w. (convert (transcription R) p, w)),
      transcribe_audio_fn = (\<lambda>p cb w. transcribe_audio (transcription R) p (Some cb) w),
      index_transcript_fn =
        (\<lambda>t w. case index_transcript (search_libs R) t (meeting_search w) of
                 (ok, S) \<Rightarrow> (Inr ok, w\<lparr>meeting_search := S\<rparr>)),
      summarize_text_fn = (\<lambda>t n w. (Inr (summarize_text (summarizer R) t n), w)),
      analyze_sentiment_fn = (\<lambda>t w. (Inr (analyze_sentiment R t), w)),
      str_of = str_value (transcription R),
      format_audio_file = format_audio_line R\<rparr>"

section \<open>Reference states\<close>

text \<open>The process state at start-up: no job, nothing indexed.\<close>

definition start_world :: world where
  "start_world =
     \<lparr>job_status = Map.empty, stdout = [], now = 0, files = Map.empty,
      background_tasks = [],
      meeting_search = \<lparr>vectorizer = None, indexed_transcript = None, sentences = []\<rparr>\<rparr>"

text \<open>
  The progress values \<open>update_status\<close> has written for a job, in order: one entry
  per printed line of that job.
\<close>

definition progress_log :: "string \<Rightarrow> world \<Rightarrow> int list" where
  "progress_log job_id w = map (\<lambda>l. fst (snd l)) (filter (\<lambda>l. fst l = job_id) (stdout w))"

text \<open>
  An environment in which every external call succeeds: the upload exists and has
  content, the diagnostic dictionary is the one check_audio.py builds, conversion and
  the transcription service succeed, and the tokenizers split at full stops.
\<close>

definition sound_file :: check_results where
  "sound_file =
     \<lparr>file_exists = True, file_size = 1024, mime_type = Some ''audio/mpeg'',
      file_extension = Some ''.mp3'', readable = True, issues = []\<rparr>"

definition working_transcription :: transcription_env where
  "working_transcription =
     \<lparr>path_exists = (\<lambda>p. True),
      getsize = (\<lambda>p. 1024),
      check_audio = (\<lambda>p. results_dict sound_file),
      convert = (\<lambda>p. Inr ''/tmp/converted.wav''),
      new_transcriber = None,
      aai_transcribe = (\<lambda>p. Inr \<lparr>status_is_error = False, error_attr = None,
                                    text_attr = ustr ''Hello. Bye.''\<rparr>),
      str_value = (\<lambda>v. ''issue''),
      format_valid_line = (\<lambda>d. Inr ''Audio file looks valid'')\<rparr>"

definition working_env :: repo_env where
  "working_env =
     \<lparr>transcription = working_transcription,
      search_libs = \<lparr>sent_tokenize = (\<lambda>t. Inr (split [46, 32] t)),
                     tfidf_fit = (\<lambda>ss. Inr (\<lambda>q. Inr (map (\<lambda>s. 0) ss)))\<rparr>,
      summarizer = \<lparr>sent_tokenizer = (\<lambda>t. Inr (split [46, 32] t)),
                    word_tokenize = (\<lambda>s. Inr (split_ws s)),
                    stopwords = Inr [],
                    lower_text = (\<lambda>s. s),
                    isalnum = (\<lambda>s. True)\<rparr>,
      analyze_sentiment = (\<lambda>t. [(''Overall Sentiment'', ''Neutral'')]),
      format_audio_line = (\<lambda>d. Inr ''Audio file: 0.00s, 0Hz, 0 channel(s)'')\<rparr>"

text \<open>
  The same environment with a diagnostic dictionary that carries the key "error" with
  value None, the shape the subscripts of transcription.py read.
\<close>

definition with_error_key :: "repo_env \<Rightarrow> repo_env" where
  "with_error_key R =
     R\<lparr>transcription := (transcription R)
          \<lparr>check_audio := (\<lambda>p. (check_audio (transcription R) p)(''error'' \<mapsto> PNone))\<rparr>\<rparr>"

text \<open>A process in which one job has just been submitted.\<close>

definition one_job_world :: world where
  "one_job_world = start_world\<lparr>job_status := [''job-1'' \<mapsto> new_job 0]\<rparr>"

text \<open>
  What decides the shape of a status response, read off the record of a job: the flag
  "complete", the field "error" and the field "results".
\<close>

definition outcome :: "string \<Rightarrow> world \<Rightarrow> (bool \<times> string option \<times> results option) option" where
  "outcome job_id w =
     map_option (\<lambda>j. (complete_flag j, error j, results j)) (job_status w job_id)"

text \<open>
  A submission: an upload of three bytes named "talk.mp3", and an environment in which
  the probes of the upload raise nothing.
\<close>

definition talk_upload :: upload where
  "talk_upload =
     \<lparr>filename = Some ''talk.mp3'', content_type = Some ''audio/mpeg'',
      file_content = [73, 68, 51]\<rparr>"

definition quiet_env :: submit_env where
  "quiet_env =
     \<lparr>uuid4 = ''job-1'',
      named_temporary_file = (\<lambda>suffix. ''/tmp/upload'' @ suffix),
      magic_probe = (\<lambda>p. None),
      validation_probe = (\<lambda>p. None)\<rparr>"

text \<open>
  An options text with a point count of 50 and a style that is neither "Bullets" nor
  "Paragraph", what \<open>json.loads\<close> returns for it (any other text is taken as not
  being JSON), and a validation that accepts no value of another JSON type.
\<close>

definition wide_options_text :: string where
  \<open>wide_options_text = ''{"num_summary_points": 50, "summary_style": "Table"}''\<close>

definition wide_options_loads :: "string \<Rightarrow> exn + json" where
  "wide_options_loads s =
     (if s = wide_options_text
      then Inr (JObj [(''num_summary_points'', JInt 50), (''summary_style'', JStr ''Table'')])
      else Inl (ValueError ''Expecting value''))"

definition strict_validation :: pydantic where
  "strict_validation = \<lparr>coerce_int = (\<lambda>v. None), coerce_str = (\<lambda>v. None)\<rparr>"

text \<open>
  A search singleton with two indexed sentences and a vectorizer under which no sentence
  has a positive similarity to any query.
\<close>

definition unmatched_index :: MeetingSearch where
  "unmatched_index =
     \<lparr>vectorizer = Some (\<lambda>q. Inr [0, 0]),
      indexed_transcript = Some (ustr ''Budget approved. Alice leads.''),
      sentences = [ustr ''Budget approved.'', ustr ''Alice leads.'']\<rparr>"


text \<open>
  A registry with one failed job, one complete job and one running job.
\<close>

definition three_jobs_world :: world where
  "three_jobs_world =
     start_world\<lparr>job_status :=
       [''failed'' \<mapsto> (new_job 0)\<lparr>message := ''Error: boom'', error := Some ''boom''\<rparr>,
        ''done'' \<mapsto> (new_job 0)\<lparr>progress := 100, message := ''Processing complete'',
                     complete_flag := True,
                     results := Some \<lparr>transcript = ustr ''Hello.'',
                                      summary = bullets [ustr ''Hello.''],
                                      sentiment = [(''Overall Sentiment'', ''Neutral'')]\<rparr>\<rparr>,
        ''running'' \<mapsto> (new_job 0)\<lparr>progress := 25,
                        message := ''Starting transcription...''\<rparr>]\<rparr>"

text \<open>
  An options text that gives a point count and no style, and what \<open>json.loads\<close>
  returns for it.
\<close>

definition points_only_text :: string where
  \<open>points_only_text = ''{"num_summary_points": 7}''\<close>

definition points_only_loads :: "string \<Rightarrow> exn + json" where
  "points_only_loads s =
     (if s = points_only_text then Inr (JObj [(''num_summary_points'', JInt 7)])
      else Inl (ValueError ''Expecting value''))"

section \<open>Properties of the registry\<close>

lemma keys_to_remove_iff:
  "job_id \<in> keys_to_remove w \<longleftrightarrow>
     (\<exists>status. job_status w job_id = Some status \<and> now w - created_at status > 86400)"
  by (auto simp: keys_to_remove_def split: option.splits)

text \<open>
  C5. At a sweep tick a registered record is removed exactly when the clock reading minus
  its creation time exceeds 86400 seconds. The test reads no other field, so the state
  of the job plays no part; a record at or below the threshold is kept as it is, and an
  absent identifier stays absent.
\<close>

theorem reaper_removes_iff_older_than_24h:
  assumes "job_status w job_id = Some status"
  shows "(job_status (cleanup_old_jobs_tick w) job_id = None
            \<longleftrightarrow> now w - created_at status > 86400)
         \<and> (now w - created_at status \<le> 86400
            \<longrightarrow> job_status (cleanup_old_jobs_tick w) job_id = Some status)"
  using assms by (simp add: cleanup_old_jobs_tick_def keys_to_remove_iff)

theorem reaper_removes_iff_older_than_24h_witness:
  "job_status (cleanup_old_jobs_tick
      (start_world\<lparr>job_status := [''a'' \<mapsto> new_job 0], now := 86401\<rparr>)) ''a'' = None
   \<and> job_status (cleanup_old_jobs_tick
      (start_world\<lparr>job_status := [''a'' \<mapsto> (new_job 1)\<lparr>complete_flag := True\<rparr>],
                   now := 86401\<rparr>)) ''a''
     = Some ((new_job 1)\<lparr>complete_flag := True\<rparr>)"
  using reaper_removes_iff_older_than_24h
          [of "start_world\<lparr>job_status := [''a'' \<mapsto> new_job 0], now := 86401\<rparr>"
              "''a''" "new_job 0"]
        reaper_removes_iff_older_than_24h
          [of "start_world\<lparr>job_status := [''a'' \<mapsto> (new_job 1)\<lparr>complete_flag := True\<rparr>],
                           now := 86401\<rparr>"
              "''a''" "(new_job 1)\<lparr>complete_flag := True\<rparr>"]
  by (simp add: new_job_def)

lemma reaper_keeps_absent:
  "job_status w job_id = None \<Longrightarrow> job_status (cleanup_old_jobs_tick w) job_id = None"
  by (simp add: cleanup_old_jobs_tick_def keys_to_remove_iff)

section \<open>Properties of update_status and of the executor\<close>

lemma update_status_absent:
  "job_status w job_id = None \<Longrightarrow> update_status job_id p msg w = w"
  by (simp add: update_status_def)

lemma update_status_registered:
  "job_status w job_id \<noteq> None \<Longrightarrow> job_status (update_status job_id p msg w) job_id \<noteq> None"
  by (auto simp: update_status_def)

lemma progress_log_update_status:
  "job_status w job_id \<noteq> None \<Longrightarrow>
   progress_log job_id (update_status job_id p msg w) = progress_log job_id w @ [p]"
  by (auto simp: update_status_def progress_log_def)

lemma progress_log_cleanup_files [simp]:
  "progress_log job_id (cleanup_files p q w) = progress_log job_id w"
  by (simp add: cleanup_files_def progress_log_def split: option.splits)

lemma job_status_cleanup_files [simp]:
  "job_status (cleanup_files p q w) = job_status w"
  by (simp add: cleanup_files_def split: option.splits)

lemma results_dict_no_error: "results_dict r ''error'' = None"
  by (simp add: results_dict_def)

subsection \<open>Symbolic runs of the steps\<close>

lemma check_step_ok:
  assumes "\<And>w'. check_audio_file_fn I path w' = (Inr d, w')"
      and "d ''error'' = None"
      and "format_audio_file I d = Inr line"
  shows "check_step I path job_id w =
           (Inr (), update_status job_id 10 line
                      (update_status job_id 5 ''Checking audio file format...'' w))"
  using assms by (simp add: check_step_def seq_def effect_def)

lemma convert_step_ok:
  assumes "\<And>w'. convert_audio_to_wav_fn I path w' = (Inr wav, w')"
  shows "convert_step I path job_id w =
           (Inr wav, update_status job_id 20 ''Audio converted successfully''
                      (update_status job_id 15 ''Converting audio to proper format...'' w))"
  using assms by (simp add: convert_step_def)

text \<open>
  With the dictionary of check_audio.py, which has no key "error", the subscript of
  line 188 of transcription.py raises after the reports 5 and 8.
\<close>

lemma transcribe_audio_key_error:
  assumes "path_exists E path" and "getsize E path \<noteq> 0"
      and "check_audio E path ''error'' = None"
  shows "transcribe_audio E path (Some cb) w =
           (Inl (KeyError ''error''),
            cb 8 ''Checking audio file format...''
              (cb 5 ''Preparing audio for transcription...'' w))"
  using assms by (simp add: transcribe_audio_def report_def)

lemma analysis_steps_key_error:
  assumes "path_exists (transcription R) wav" and "getsize (transcription R) wav \<noteq> 0"
      and "check_audio (transcription R) wav ''error'' = None"
  shows "analysis_steps (repo_imports R) wav job_id options w =
           (Inl (KeyError ''error''),
            update_status job_id 8 ''Checking audio file format...''
              (update_status job_id 5 ''Preparing audio for transcription...''
                 (update_status job_id 25 ''Starting transcription...'' w)))"
  using assms
  by (simp add: analysis_steps_def seq_def effect_def repo_imports_def transcribe_audio_key_error)

lemma on_exception_registered:
  assumes "job_status w job_id \<noteq> None"
  shows "fst (on_exception job_id e w) = Inr ()"
    and "progress_log job_id (snd (on_exception job_id e w)) = progress_log job_id w @ [0]"
    and "map_option error (job_status (snd (on_exception job_id e w)) job_id)
           = Some (Some (str_exn e))"
  using assms
  by (auto simp: on_exception_def seq_def effect_def set_field_def update_status_def
        progress_log_def)

text \<open>
  The run of every registered job whose upload converts, with the stage functions of
  the repository: the executor writes 5, 10, 15, 20, 25, the callback of the
  transcription stage then writes 5 and 8, and the handler writes 0.
\<close>

lemma repo_run_trace:
  assumes reg: "job_status w job_id \<noteq> None"
      and nokey: "\<And>p. check_audio (transcription R) p ''error'' = None"
      and fmt: "format_audio_line R (check_audio (transcription R) temp) = Inr line"
      and conv: "convert (transcription R) temp = Inr wav"
      and ex: "path_exists (transcription R) wav"
      and sz: "getsize (transcription R) wav \<noteq> 0"
  shows "progress_log job_id (snd (process_audio_task (repo_imports R) temp job_id options w))
           = progress_log job_id w @ [5, 10, 15, 20, 25, 5, 8, 0]"
proof -
  let ?w8 = "update_status job_id 8 ''Checking audio file format...''
              (update_status job_id 5 ''Preparing audio for transcription...''
                (update_status job_id 25 ''Starting transcription...''
                  (update_status job_id 20 ''Audio converted successfully''
                    (update_status job_id 15 ''Converting audio to proper format...''
                      (update_status job_id 10 line
                        (update_status job_id 5 ''Checking audio file format...'' w))))))"
  have c: "check_step (repo_imports R) temp job_id w =
             (Inr (), update_status job_id 10 line
                        (update_status job_id 5 ''Checking audio file format...'' w))"
    by (rule check_step_ok [where d = "check_audio (transcription R) temp"])
       (simp_all add: repo_imports_def nokey fmt)
  have v: "\<And>w'. convert_step (repo_imports R) temp job_id w' =
             (Inr wav, update_status job_id 20 ''Audio converted successfully''
                (update_status job_id 15 ''Converting audio to proper format...'' w'))"
    by (rule convert_step_ok) (simp add: repo_imports_def conv)
  have run: "process_audio_task (repo_imports R) temp job_id options w =
          (fst (on_exception job_id (KeyError ''error'') ?w8),
           cleanup_files temp (Some wav) (snd (on_exception job_id (KeyError ''error'') ?w8)))"
    by (simp add: process_audio_task_def c v analysis_steps_key_error [OF ex sz nokey]
          case_prod_beta)
  have r8: "job_status ?w8 job_id \<noteq> None"
    by (intro update_status_registered reg)
  have "progress_log job_id ?w8 = progress_log job_id w @ [5, 10, 15, 20, 25, 5, 8]"
    by (simp add: progress_log_update_status update_status_registered reg)
  then show ?thesis
    by (simp add: run on_exception_registered(2) [OF r8])
qed

text \<open>
  C1. The progress values written for a job are not non-decreasing while it runs. For
  the job of \<open>one_job_world\<close>, with every external call succeeding, the executor has
  written 25 when the first report of the transcription callback writes 5; the record
  of the job then holds a smaller progress than the one recorded before, and no error
  yet. The last value, 0, is the one the handler writes when it records the error.
\<close>

theorem progress_regresses_at_transcription:
  "progress_log ''job-1''
     (snd (process_audio_task (repo_imports working_env) ''/tmp/upload.mp3'' ''job-1''
             default_options one_job_world))
     = [5, 10, 15, 20, 25, 5, 8, 0]
   \<and> \<not> sorted (butlast (progress_log ''job-1''
     (snd (process_audio_task (repo_imports working_env) ''/tmp/upload.mp3'' ''job-1''
             default_options one_job_world))))"
proof -
  have "progress_log ''job-1''
     (snd (process_audio_task (repo_imports working_env) ''/tmp/upload.mp3'' ''job-1''
             default_options one_job_world))
     = progress_log ''job-1'' one_job_world @ [5, 10, 15, 20, 25, 5, 8, 0]"
    by (rule repo_run_trace
          [where line = "''Audio file: 0.00s, 0Hz, 0 channel(s)''"
             and wav = "''/tmp/converted.wav''"])
       (simp_all add: one_job_world_def start_world_def working_env_def
          working_transcription_def results_dict_no_error)
  then show ?thesis
    by (simp add: progress_log_def one_job_world_def start_world_def)
qed

subsection \<open>A job whose record is gone\<close>

lemma report_absent:
  "job_status w job_id = None \<Longrightarrow> report (Some (update_status job_id)) p msg w = w"
  by (simp add: report_def update_status_absent)

lemma call_service_absent:
  "job_status w job_id = None \<Longrightarrow>
   snd (call_service E wav (Some (update_status job_id)) w) = w"
  by (simp add: call_service_def report_absent Let_def split: option.splits sum.splits)

lemma convert_and_verify_absent:
  "job_status w job_id = None \<Longrightarrow>
   snd (convert_and_verify E path (Some (update_status job_id)) w) = w"
  by (simp add: convert_and_verify_def report_absent call_service_absent Let_def
        split: option.splits sum.splits)

lemma transcribe_audio_absent:
  "job_status w job_id = None \<Longrightarrow>
   snd (transcribe_audio E path (Some (update_status job_id)) w) = w"
  by (simp add: transcribe_audio_def report_absent update_status_absent
        convert_and_verify_absent Let_def split: option.splits sum.splits)

text \<open>
  The handler of the executor on an absent record: \<open>update_status\<close> does nothing and
  the store of the error raises KeyError out of the handler.
\<close>

lemma on_exception_absent:
  "job_status w job_id = None \<Longrightarrow> on_exception job_id e w = (Inl (KeyError job_id), w)"
  by (simp add: on_exception_def seq_def effect_def set_field_def update_status_absent)

lemma check_step_absent:
  "job_status w job_id = None \<Longrightarrow> snd (check_step (repo_imports R) path job_id w) = w"
  by (simp add: check_step_def seq_def effect_def repo_imports_def update_status_absent
        split: option.splits sum.splits)

lemma convert_step_absent:
  "job_status w job_id = None \<Longrightarrow> snd (convert_step (repo_imports R) path job_id w) = w"
  by (simp add: convert_step_def repo_imports_def update_status_absent
        split: option.splits sum.splits)

lemma analysis_steps_absent:
  assumes "job_status w job_id = None"
  shows "\<exists>e w'. analysis_steps (repo_imports R) wav job_id options w = (Inl e, w')
            \<and> job_status w' = job_status w"
proof -
  obtain r where tr:
    "transcribe_audio (transcription R) wav (Some (update_status job_id)) w = (r, w)"
    using transcribe_audio_absent [OF assms, of "transcription R" wav]
    by (metis prod.collapse)
  show ?thesis
  proof (cases r)
    case (Inl e)
    then show ?thesis using assms tr
      by (simp add: analysis_steps_def seq_def effect_def repo_imports_def update_status_absent)
  next
    case (Inr t)
    obtain ok S where ix: "index_transcript (search_libs R) t (meeting_search w) = (ok, S)"
      by (cases "index_transcript (search_libs R) t (meeting_search w)")
    have abs: "job_status (w\<lparr>meeting_search := S\<rparr>) job_id = None"
      using assms by simp
    show ?thesis using assms tr Inr ix abs
      by (simp add: analysis_steps_def seq_def effect_def repo_imports_def update_status_absent
            set_field_def)
  qed
qed

text \<open>
  Whatever the stages do, a run for an identifier that is not in the registry ends with
  KeyError raised out of the task, and leaves the registry as it was.
\<close>

lemma evicted_job_run:
  assumes "job_status w job_id = None"
  shows "fst (process_audio_task (repo_imports R) temp job_id options w) = Inl (KeyError job_id)
     \<and> job_status (snd (process_audio_task (repo_imports R) temp job_id options w))
         = job_status w"
proof -
  obtain r1 where c1: "check_step (repo_imports R) temp job_id w = (r1, w)"
    using check_step_absent [OF assms, of R temp] by (metis prod.collapse)
  obtain r2 where c2: "convert_step (repo_imports R) temp job_id w = (r2, w)"
    using convert_step_absent [OF assms, of R temp] by (metis prod.collapse)
  show ?thesis
  proof (cases r1)
    case (Inl e)
    then show ?thesis using c1 assms
      by (simp add: process_audio_task_def on_exception_absent)
  next
    case Inr1: (Inr u)
    show ?thesis
    proof (cases r2)
      case (Inl e)
      then show ?thesis using c1 c2 Inr1 assms
        by (simp add: process_audio_task_def on_exception_absent)
    next
      case (Inr wav)
      obtain e w' where a: "analysis_steps (repo_imports R) wav job_id options w = (Inl e, w')"
        and js: "job_status w' = job_status w"
        using analysis_steps_absent [OF assms] by blast
      have "job_status w' job_id = None" using js assms by simp
      then show ?thesis using c1 c2 Inr1 Inr a js
        by (simp add: process_audio_task_def on_exception_absent)
    qed
  qed
qed

text \<open>
  C2. An update for an absent job is not a silent no-op for every write of the executor.
  In a process whose registry does not hold "job-1" (the reaper has evicted it), the
  guarded \<open>update_status\<close> leaves the state as it is, but the run of the executor for
  that job ends with KeyError raised by the unguarded store of the error; the registry
  stays empty.
\<close>

theorem evicted_job_store_raises:
  "update_status ''job-1'' 100 ''Processing complete'' start_world = start_world
   \<and> fst (process_audio_task (repo_imports working_env) ''/tmp/upload.mp3'' ''job-1''
            default_options start_world) = Inl (KeyError ''job-1'')
   \<and> job_status (snd (process_audio_task (repo_imports working_env) ''/tmp/upload.mp3''
            ''job-1'' default_options start_world)) ''job-1'' = None"
  using evicted_job_run [of start_world "''job-1''" working_env "''/tmp/upload.mp3''"
          default_options]
  by (simp add: update_status_absent start_world_def)


section \<open>Properties of the status endpoint\<close>

lemma get_job_status_not_found_iff:
  "get_job_status job_id w = Inl (HTTPException 404 ''Job not found'')
     \<longleftrightarrow> job_status w job_id = None"
  by (simp add: get_job_status_def split: option.splits)

lemma get_job_status_shapes:
  assumes "job_status w job_id = Some j"
  shows "get_job_status job_id w =
           (case error j of
              Some (c # cs) \<Rightarrow> Inr (ErrorResponse (message j) (c # cs))
            | _ \<Rightarrow> if complete_flag j then Inr (CompleteResponse (results j))
                   else Inr (ProcessingResponse (progress j) (message j)))"
  using assms by (simp add: get_job_status_def split: option.splits list.splits)

lemma outcome_update_status [simp]:
  "outcome job_id (update_status job_id' p msg w) = outcome job_id w"
  by (auto simp: outcome_def update_status_def split: option.splits)

lemma outcome_report [simp]:
  "outcome job_id (report (Some (update_status job_id')) p msg w) = outcome job_id w"
  by (simp add: report_def)

lemma outcome_call_service [simp]:
  "outcome job_id (snd (call_service E wav (Some (update_status job_id')) w)) = outcome job_id w"
  by (simp add: call_service_def Let_def split: option.splits sum.splits)

lemma outcome_convert_and_verify [simp]:
  "outcome job_id (snd (convert_and_verify E path (Some (update_status job_id')) w))
     = outcome job_id w"
  by (simp add: convert_and_verify_def Let_def split: option.splits sum.splits)

lemma outcome_transcribe_audio [simp]:
  "outcome job_id (snd (transcribe_audio E path (Some (update_status job_id')) w))
     = outcome job_id w"
  by (simp add: transcribe_audio_def Let_def split: option.splits sum.splits)

lemma outcome_check_step [simp]:
  "outcome job_id (snd (check_step (repo_imports R) path job_id' w)) = outcome job_id w"
  by (simp add: check_step_def seq_def effect_def repo_imports_def
        split: option.splits sum.splits)

lemma outcome_convert_step [simp]:
  "outcome job_id (snd (convert_step (repo_imports R) path job_id' w)) = outcome job_id w"
  by (simp add: convert_step_def repo_imports_def split: option.splits sum.splits prod.splits)

lemma outcome_cleanup_files [simp]:
  "outcome job_id (cleanup_files p q w) = outcome job_id w"
  by (simp add: outcome_def)

lemma outcome_meeting_search [simp]:
  "outcome job_id (w\<lparr>meeting_search := S\<rparr>) = outcome job_id w"
  by (simp add: outcome_def)

lemma outcome_on_exception:
  "outcome job_id w = Some (c, e0, r) \<Longrightarrow>
   outcome job_id (snd (on_exception job_id e w)) = Some (c, Some (str_exn e), r)"
  by (auto simp: on_exception_def seq_def effect_def set_field_def outcome_def
        update_status_def split: option.splits)

lemma analysis_steps_outcome:
  assumes "outcome job_id w = Some (c, e0, r)"
  shows "case analysis_steps (repo_imports R) wav job_id options w of
           (Inl e, w') \<Rightarrow> outcome job_id w' = Some (c, e0, r)
         | (Inr u, w') \<Rightarrow> (\<exists>res. outcome job_id w' = Some (True, e0, Some res))"
proof -
  let ?w1 = "update_status job_id 25 ''Starting transcription...'' w"
  obtain r1 w2 where tr:
    "transcribe_audio (transcription R) wav (Some (update_status job_id)) ?w1 = (r1, w2)"
    by (cases "transcribe_audio (transcription R) wav (Some (update_status job_id)) ?w1")
  have o2: "outcome job_id w2 = Some (c, e0, r)"
    using outcome_transcribe_audio [of job_id "transcription R" wav job_id ?w1] tr assms
    by simp
  show ?thesis
  proof (cases r1)
    case (Inl e)
    then show ?thesis using tr o2
      by (simp add: analysis_steps_def seq_def effect_def repo_imports_def)
  next
    case (Inr t)
    let ?w3 = "update_status job_id 80 ''Transcription complete. Generating summary...'' w2"
    obtain ok S where ix: "index_transcript (search_libs R) t (meeting_search ?w3) = (ok, S)"
      by (cases "index_transcript (search_libs R) t (meeting_search ?w3)")
    let ?w5 = "update_status job_id 100 ''Processing complete''
                 (update_status job_id 90 ''Analyzing sentiment...''
                    (?w3\<lparr>meeting_search := S\<rparr>))"
    have o5: "outcome job_id ?w5 = Some (c, e0, r)" using o2 by simp
    then obtain j where j: "job_status ?w5 job_id = Some j"
      by (auto simp: outcome_def)
    have je: "error j = e0" using o5 j by (simp add: outcome_def)
    show ?thesis using tr Inr ix j je
      by (simp add: analysis_steps_def seq_def effect_def repo_imports_def set_field_def
            outcome_def)
  qed
qed

text \<open>
  A run of the executor on a freshly submitted job ends in one of two ways: complete
  with results and no error, or with an error, not complete, and the results still
  None. Nothing a stage produced before the failure is stored in the record.
\<close>

lemma run_outcome:
  assumes "outcome job_id w = Some (False, None, None)"
  shows "(\<exists>res. outcome job_id (snd (process_audio_task (repo_imports R) temp job_id options w))
                  = Some (True, None, Some res))
       \<or> (\<exists>msg. outcome job_id (snd (process_audio_task (repo_imports R) temp job_id options w))
                  = Some (False, Some msg, None))"
proof -
  obtain r1 w1 where c1: "check_step (repo_imports R) temp job_id w = (r1, w1)"
    by (cases "check_step (repo_imports R) temp job_id w")
  have o1: "outcome job_id w1 = Some (False, None, None)"
    using outcome_check_step [of job_id R temp job_id w] c1 assms by simp
  show ?thesis
  proof (cases r1)
    case (Inl e)
    then show ?thesis using c1 outcome_on_exception [OF o1, of e]
      by (auto simp: process_audio_task_def split: prod.splits)
  next
    case Inr1: (Inr u)
    obtain r2 w2 where c2: "convert_step (repo_imports R) temp job_id w1 = (r2, w2)"
      by (cases "convert_step (repo_imports R) temp job_id w1")
    have o2: "outcome job_id w2 = Some (False, None, None)"
      using outcome_convert_step [of job_id R temp job_id w1] c2 o1 by simp
    show ?thesis
    proof (cases r2)
      case (Inl e)
      then show ?thesis using c1 c2 Inr1 outcome_on_exception [OF o2, of e]
        by (auto simp: process_audio_task_def split: prod.splits)
    next
      case (Inr wav)
      obtain r3 w3 where c3: "analysis_steps (repo_imports R) wav job_id options w2 = (r3, w3)"
        by (cases "analysis_steps (repo_imports R) wav job_id options w2")
      show ?thesis
      proof (cases r3)
        case (Inl e)
        have "outcome job_id w3 = Some (False, None, None)"
          using analysis_steps_outcome [OF o2, of R wav options] c3 Inl by simp
        from outcome_on_exception [OF this, of e]
        show ?thesis using c1 c2 c3 Inr1 Inr Inl
          by (auto simp: process_audio_task_def split: prod.splits)
      next
        case Inr3: (Inr u3)
        have "\<exists>res. outcome job_id w3 = Some (True, None, Some res)"
          using analysis_steps_outcome [OF o2, of R wav options] c3 Inr3 by simp
        then show ?thesis using c1 c2 c3 Inr1 Inr Inr3
          by (simp add: process_audio_task_def)
      qed
    qed
  qed
qed

text \<open>
  The response for a job with a recorded error never carries results; it has the error
  shape when the recorded message is not empty and the processing shape when it is.
\<close>

lemma get_job_status_failed:
  assumes "outcome job_id w = Some (False, Some msg, r)"
  shows "(msg \<noteq> [] \<longrightarrow> (\<exists>m. get_job_status job_id w = Inr (ErrorResponse m msg)))
       \<and> (msg = [] \<longrightarrow> (\<exists>p m. get_job_status job_id w = Inr (ProcessingResponse p m)))"
  using assms by (auto simp: get_job_status_def outcome_def split: option.splits)

lemma status_after_on_exception:
  assumes "outcome job_id w = Some (False, e0, r)"
  shows "get_job_status job_id (cleanup_files a b (snd (on_exception job_id e w))) =
           (if str_exn e = [] then Inr (ProcessingResponse 0 ''Error: '')
            else Inr (ErrorResponse (''Error: '' @ str_exn e) (str_exn e)))"
  using assms
  by (auto simp: get_job_status_def outcome_def on_exception_def seq_def effect_def
        set_field_def update_status_def cleanup_files_def split: option.splits)

lemma outcome_one_job_world: "outcome ''job-1'' one_job_world = Some (False, None, None)"
  by (simp add: outcome_def one_job_world_def start_world_def new_job_def)

subsection \<open>The error a record can hold\<close>

lemma transcribe_audio_no_key_raises:
  assumes "\<And>p. check_audio E p ''error'' = None"
  shows "\<exists>e. fst (transcribe_audio E path (Some cb) w) = Inl e \<and> str_exn e \<noteq> []"
  using assms by (simp add: transcribe_audio_def Let_def)

lemma analysis_steps_no_key_raises:
  assumes "\<And>p. check_audio (transcription R) p ''error'' = None"
  shows "\<exists>e w'. analysis_steps (repo_imports R) wav job_id options w = (Inl e, w')
           \<and> str_exn e \<noteq> [] \<and> (\<forall>i. outcome i w' = outcome i w)"
proof -
  let ?w1 = "update_status job_id 25 ''Starting transcription...'' w"
  obtain r w2 where tr:
    "transcribe_audio (transcription R) wav (Some (update_status job_id)) ?w1 = (r, w2)"
    by (cases "transcribe_audio (transcription R) wav (Some (update_status job_id)) ?w1")
  obtain e where e: "r = Inl e" "str_exn e \<noteq> []"
    using transcribe_audio_no_key_raises [OF assms, of wav "update_status job_id" ?w1] tr
    by auto
  have o: "\<forall>i. outcome i w2 = outcome i w"
  proof
    fix i
    show "outcome i w2 = outcome i w"
      using outcome_transcribe_audio [of i "transcription R" wav job_id ?w1] tr by simp
  qed
  have "analysis_steps (repo_imports R) wav job_id options w = (Inl e, w2)"
    using tr e by (simp add: analysis_steps_def seq_def effect_def repo_imports_def)
  then show ?thesis using e o by blast
qed

lemma check_step_repo_raises:
  assumes "check_step (repo_imports R) path job_id w = (Inl e, w')"
  shows "\<exists>d. format_audio_line R d = Inl e"
  using assms
  by (auto simp: check_step_def seq_def effect_def repo_imports_def
        split: option.splits sum.splits if_splits)

lemma convert_step_raises:
  assumes "convert_step I path job_id w = (Inl e, w')"
  shows "str_exn e \<noteq> []"
  using assms by (auto simp: convert_step_def split: prod.splits sum.splits)

lemma outcome_on_exception_other:
  "i \<noteq> job_id \<Longrightarrow> outcome i (snd (on_exception job_id e w)) = outcome i w"
  by (auto simp: on_exception_def seq_def effect_def set_field_def outcome_def
        update_status_def split: option.splits)

text \<open>
  With the dictionary of check_audio.py every run of the executor ends in its handler,
  with an exception whose message is not empty: the format check can raise only from the
  formatting of its report, the conversion handler raises a ValueError with a prefix, and
  the transcription stage raises at the latest at the subscript of line 188.
\<close>

lemma repo_run_fails:
  assumes nokey: "\<And>p. check_audio (transcription R) p ''error'' = None"
      and fmt: "\<And>d e. format_audio_line R d = Inl e \<Longrightarrow> str_exn e \<noteq> []"
  shows "\<exists>e w1 wp. str_exn e \<noteq> [] \<and> (\<forall>i. outcome i w1 = outcome i w)
           \<and> process_audio_task (repo_imports R) temp job_id options w
               = (fst (on_exception job_id e w1),
                  cleanup_files temp wp (snd (on_exception job_id e w1)))"
proof -
  obtain r1 w1 where c1: "check_step (repo_imports R) temp job_id w = (r1, w1)"
    by (cases "check_step (repo_imports R) temp job_id w")
  have o1: "\<forall>i. outcome i w1 = outcome i w"
    using outcome_check_step [of _ R temp job_id w] c1 by simp
  show ?thesis
  proof (cases r1)
    case (Inl e)
    then have "str_exn e \<noteq> []" using check_step_repo_raises c1 fmt by blast
    moreover have "process_audio_task (repo_imports R) temp job_id options w
               = (fst (on_exception job_id e w1),
                  cleanup_files temp None (snd (on_exception job_id e w1)))"
      using c1 Inl by (simp add: process_audio_task_def case_prod_beta)
    ultimately show ?thesis using o1 by blast
  next
    case Inr1: (Inr u)
    obtain r2 w2 where c2: "convert_step (repo_imports R) temp job_id w1 = (r2, w2)"
      by (cases "convert_step (repo_imports R) temp job_id w1")
    have o2: "\<forall>i. outcome i w2 = outcome i w"
      using outcome_convert_step [of _ R temp job_id w1] c2 o1 by simp
    show ?thesis
    proof (cases r2)
      case (Inl e)
      then have "str_exn e \<noteq> []" using convert_step_raises c2 by blast
      moreover have "process_audio_task (repo_imports R) temp job_id options w
               = (fst (on_exception job_id e w2),
                  cleanup_files temp (Some temp) (snd (on_exception job_id e w2)))"
        using c1 c2 Inr1 Inl by (simp add: process_audio_task_def case_prod_beta)
      ultimately show ?thesis using o2 by blast
    next
      case (Inr wav)
      obtain e w3 where a: "analysis_steps (repo_imports R) wav job_id options w2 = (Inl e, w3)"
        and ne: "str_exn e \<noteq> []" and o3: "\<forall>i. outcome i w3 = outcome i w2"
        using analysis_steps_no_key_raises [OF nokey] by blast
      have "process_audio_task (repo_imports R) temp job_id options w
               = (fst (on_exception job_id e w3),
                  cleanup_files temp (Some wav) (snd (on_exception job_id e w3)))"
        using c1 c2 Inr1 Inr a by (simp add: process_audio_task_def case_prod_beta)
      then show ?thesis using ne o2 o3 by (metis)
    qed
  qed
qed

lemma repo_run_error_nonempty:
  assumes nokey: "\<And>p. check_audio (transcription R) p ''error'' = None"
      and fmt: "\<And>d e. format_audio_line R d = Inl e \<Longrightarrow> str_exn e \<noteq> []"
  shows "outcome job_id w = Some (c, e0, r) \<longrightarrow>
           (\<exists>msg. msg \<noteq> [] \<and>
              outcome job_id (snd (process_audio_task (repo_imports R) temp job_id options w))
                = Some (c, Some msg, r))"
    and "i \<noteq> job_id \<longrightarrow>
           outcome i (snd (process_audio_task (repo_imports R) temp job_id options w))
             = outcome i w"
proof -
  have "\<exists>e w1 wp. str_exn e \<noteq> [] \<and> (\<forall>i. outcome i w1 = outcome i w)
           \<and> process_audio_task (repo_imports R) temp job_id options w
               = (fst (on_exception job_id e w1),
                  cleanup_files temp wp (snd (on_exception job_id e w1)))"
    by (rule repo_run_fails) (simp_all add: nokey fmt)
  then obtain e w1 wp where ne: "str_exn e \<noteq> []" and o: "\<forall>i. outcome i w1 = outcome i w"
    and run: "process_audio_task (repo_imports R) temp job_id options w
               = (fst (on_exception job_id e w1),
                  cleanup_files temp wp (snd (on_exception job_id e w1)))"
    by blast
  show "outcome job_id w = Some (c, e0, r) \<longrightarrow>
           (\<exists>msg. msg \<noteq> [] \<and>
              outcome job_id (snd (process_audio_task (repo_imports R) temp job_id options w))
                = Some (c, Some msg, r))"
  proof
    assume "outcome job_id w = Some (c, e0, r)"
    then have "outcome job_id w1 = Some (c, e0, r)" using o by simp
    from outcome_on_exception [OF this, of e] show "\<exists>msg. msg \<noteq> [] \<and>
              outcome job_id (snd (process_audio_task (repo_imports R) temp job_id options w))
                = Some (c, Some msg, r)"
      using ne by (simp add: run)
  qed
  show "i \<noteq> job_id \<longrightarrow>
           outcome i (snd (process_audio_task (repo_imports R) temp job_id options w))
             = outcome i w"
    using o by (simp add: run outcome_on_exception_other)
qed

text \<open>
  The error field of a record is None or a text that is not empty: the submission writes
  None, and a run of the executor leaves the field of every other job as it was and writes
  to its own job the message of an exception that has one.
\<close>

lemma recorded_error_has_text:
  assumes nokey: "\<And>p. check_audio (transcription R) p ''error'' = None"
      and fmt: "\<And>d e. format_audio_line R d = Inl e \<Longrightarrow> str_exn e \<noteq> []"
      and before: "\<And>j. job_status w i = Some j \<Longrightarrow> error j \<noteq> Some []"
      and after: "job_status (snd (process_audio_task (repo_imports R) temp job_id options w)) i
                    = Some j'"
  shows "error j' \<noteq> Some []"
proof (cases "i = job_id")
  case False
  have "outcome i (snd (process_audio_task (repo_imports R) temp job_id options w)) = outcome i w"
    using repo_run_error_nonempty(2) [of R i job_id temp options w] nokey fmt False by blast
  then have "outcome i w = Some (complete_flag j', error j', results j')"
    using after by (simp add: outcome_def)
  then obtain j where "job_status w i = Some j" "error j = error j'"
    by (cases "job_status w i") (auto simp: outcome_def)
  then show ?thesis using before by auto
next
  case True
  show ?thesis
  proof (cases "job_status w job_id")
    case None
    then have "job_status (snd (process_audio_task (repo_imports R) temp job_id options w))
                 = job_status w"
      using evicted_job_run by blast
    then show ?thesis using after True None by simp
  next
    case (Some j)
    then have "outcome job_id w = Some (complete_flag j, error j, results j)"
      by (simp add: outcome_def)
    then obtain msg where "msg \<noteq> []"
      "outcome job_id (snd (process_audio_task (repo_imports R) temp job_id options w))
         = Some (complete_flag j, Some msg, results j)"
      using repo_run_error_nonempty(1) [of R job_id w "complete_flag j" "error j" "results j"
              temp options] nokey fmt
      by blast
    then show ?thesis using after True by (auto simp: outcome_def)
  qed
qed

lemma submitted_record_has_no_error:
  assumes "job_status (snd (process_audio X file options w)) i = Some j'"
  shows "error j' = None \<or> job_status w i = Some j'"
  using assms
  by (auto simp: process_audio_def Let_def new_job_def split: if_splits option.splits)

text \<open>
  C4. The status endpoint answers 404 exactly when the identifier is not in the
  registry. Otherwise the shape of the answer is decided by the state of the record, for
  every record whose error field is None or a text that is not empty, which are the
  records the server writes (\<open>submitted_record_has_no_error\<close>,
  \<open>recorded_error_has_text\<close>): a job with an error is answered with its message and
  its error, a job without error that is complete with its results, and any other job
  with its progress and its message.
\<close>

theorem status_shape_by_state:
  "(get_job_status job_id w = Inl (HTTPException 404 ''Job not found'')
      \<longleftrightarrow> job_status w job_id = None)
   \<and> (\<forall>status. job_status w job_id = Some status \<and> error status \<noteq> Some []
        \<longrightarrow> get_job_status job_id w =
              (case error status of
                 Some e \<Rightarrow> Inr (ErrorResponse (message status) e)
               | None \<Rightarrow>
                   if complete_flag status then Inr (CompleteResponse (results status))
                   else Inr (ProcessingResponse (progress status) (message status))))"
  by (auto simp: get_job_status_def split: option.splits)

theorem status_shape_by_state_witness:
  "get_job_status ''gone'' three_jobs_world = Inl (HTTPException 404 ''Job not found'')
   \<and> get_job_status ''failed'' three_jobs_world = Inr (ErrorResponse ''Error: boom'' ''boom'')
   \<and> get_job_status ''done'' three_jobs_world
       = Inr (CompleteResponse (Some \<lparr>transcript = ustr ''Hello.'',
                                      summary = bullets [ustr ''Hello.''],
                                      sentiment = [(''Overall Sentiment'', ''Neutral'')]\<rparr>))
   \<and> get_job_status ''running'' three_jobs_world
       = Inr (ProcessingResponse 25 ''Starting transcription...'')"
  using status_shape_by_state [of "''gone''" three_jobs_world]
        status_shape_by_state [of "''failed''" three_jobs_world]
        status_shape_by_state [of "''done''" three_jobs_world]
        status_shape_by_state [of "''running''" three_jobs_world]
  by (simp add: three_jobs_world_def new_job_def)

subsection \<open>A job in which a stage raises\<close>

text \<open>
  The executor is its try block followed by the handler, when the block raised, and by
  the removal of the temporary files.
\<close>

lemma process_audio_task_try_block:
  "\<exists>wp. process_audio_task I temp job_id options w =
     (case try_block I temp job_id options w of
        (Inl e, w1) \<Rightarrow> (fst (on_exception job_id e w1),
                       cleanup_files temp wp (snd (on_exception job_id e w1)))
      | (Inr u, w1) \<Rightarrow> (Inr (), cleanup_files temp wp w1))"
proof -
  obtain r1 w1 where c1: "check_step I temp job_id w = (r1, w1)"
    by (cases "check_step I temp job_id w")
  show ?thesis
  proof (cases r1)
    case (Inl e)
    then show ?thesis using c1
      by (intro exI [of _ None]) (simp add: process_audio_task_def try_block_def seq_def case_prod_beta)
  next
    case Inr1: (Inr u)
    obtain r2 w2 where c2: "convert_step I temp job_id w1 = (r2, w2)"
      by (cases "convert_step I temp job_id w1")
    show ?thesis
    proof (cases r2)
      case (Inl e)
      then show ?thesis using c1 c2 Inr1
        by (intro exI [of _ "Some temp"])
           (simp add: process_audio_task_def try_block_def seq_def case_prod_beta)
    next
      case (Inr wav)
      obtain r3 w3 where c3: "analysis_steps I wav job_id options w2 = (r3, w3)"
        by (cases "analysis_steps I wav job_id options w2")
      show ?thesis using c1 c2 c3 Inr1 Inr
        by (intro exI [of _ "Some wav"])
           (cases r3; simp add: process_audio_task_def try_block_def seq_def case_prod_beta)
    qed
  qed
qed

lemma check_step_frame:
  assumes "\<And>p w'. outcome job_id (snd (check_audio_file_fn I p w')) = outcome job_id w'"
  shows "outcome job_id (snd (check_step I path job_id w)) = outcome job_id w"
proof -
  let ?w1 = "update_status job_id 5 ''Checking audio file format...'' w"
  obtain r w2 where c: "check_audio_file_fn I path ?w1 = (r, w2)"
    by (cases "check_audio_file_fn I path ?w1")
  have "outcome job_id w2 = outcome job_id w"
    using assms [of path ?w1] c by simp
  then show ?thesis using c
    by (cases r) (auto simp: check_step_def seq_def effect_def split: option.splits sum.splits)
qed

lemma convert_step_frame:
  assumes "\<And>p w'. outcome job_id (snd (convert_audio_to_wav_fn I p w')) = outcome job_id w'"
  shows "outcome job_id (snd (convert_step I path job_id w)) = outcome job_id w"
proof -
  let ?w1 = "update_status job_id 15 ''Converting audio to proper format...'' w"
  obtain r w2 where c: "convert_audio_to_wav_fn I path ?w1 = (r, w2)"
    by (cases "convert_audio_to_wav_fn I path ?w1")
  have "outcome job_id w2 = outcome job_id w"
    using assms [of path ?w1] c by simp
  then show ?thesis using c
    by (cases r) (auto simp: convert_step_def)
qed

lemma analysis_steps_frame:
  assumes tr: "\<And>p w'. outcome job_id (snd (transcribe_audio_fn I p (update_status job_id) w'))
                         = outcome job_id w'"
      and ix: "\<And>t w'. outcome job_id (snd (index_transcript_fn I t w')) = outcome job_id w'"
      and su: "\<And>t n w'. outcome job_id (snd (summarize_text_fn I t n w')) = outcome job_id w'"
      and se: "\<And>t w'. outcome job_id (snd (analyze_sentiment_fn I t w')) = outcome job_id w'"
      and raised: "analysis_steps I wav job_id options w = (Inl e, w1)"
      and before: "outcome job_id w = Some (False, None, None)"
  shows "outcome job_id w1 = Some (False, None, None)"
proof -
  let ?wa = "update_status job_id 25 ''Starting transcription...'' w"
  obtain r1 wb where s1: "transcribe_audio_fn I wav (update_status job_id) ?wa = (r1, wb)"
    by (cases "transcribe_audio_fn I wav (update_status job_id) ?wa")
  have ob: "outcome job_id wb = Some (False, None, None)"
    using tr [of wav ?wa] s1 before by simp
  show ?thesis
  proof (cases r1)
    case (Inl e1)
    then show ?thesis using raised s1 ob
      by (simp add: analysis_steps_def seq_def effect_def)
  next
    case t: (Inr t)
    let ?wc = "update_status job_id 80 ''Transcription complete. Generating summary...'' wb"
    obtain r2 wd where s2: "index_transcript_fn I t ?wc = (r2, wd)"
      by (cases "index_transcript_fn I t ?wc")
    have od: "outcome job_id wd = Some (False, None, None)"
      using ix [of t ?wc] s2 ob by simp
    show ?thesis
    proof (cases r2)
      case (Inl e2)
      then show ?thesis using raised s1 t s2 od
        by (simp add: analysis_steps_def seq_def effect_def)
    next
      case i: (Inr ok)
      obtain r3 we where s3: "summarize_text_fn I t (num_summary_points options) wd = (r3, we)"
        by (cases "summarize_text_fn I t (num_summary_points options) wd")
      have oe: "outcome job_id we = Some (False, None, None)"
        using su [of t "num_summary_points options" wd] s3 od by simp
      show ?thesis
      proof (cases r3)
        case (Inl e3)
        then show ?thesis using raised s1 t s2 i s3 oe
          by (simp add: analysis_steps_def seq_def effect_def)
      next
        case s: (Inr summary0)
        let ?wf = "update_status job_id 90 ''Analyzing sentiment...'' we"
        obtain r4 wg where s4: "analyze_sentiment_fn I t ?wf = (r4, wg)"
          by (cases "analyze_sentiment_fn I t ?wf")
        have og: "outcome job_id wg = Some (False, None, None)"
          using se [of t ?wf] s4 oe by simp
        show ?thesis
        proof (cases r4)
          case (Inl e4)
          then show ?thesis using raised s1 t s2 i s3 s s4 og
            by (simp add: analysis_steps_def seq_def effect_def)
        next
          case (Inr sent)
          let ?wh = "update_status job_id 100 ''Processing complete'' wg"
          have "outcome job_id ?wh = Some (False, None, None)" using og by simp
          then obtain j where j: "job_status ?wh job_id = Some j"
            by (auto simp: outcome_def)
          have False using raised s1 t s2 i s3 s s4 Inr j
            by (simp add: analysis_steps_def seq_def effect_def set_field_def)
          then show ?thesis ..
        qed
      qed
    qed
  qed
qed

lemma try_block_frame:
  assumes ck: "\<And>p w'. outcome job_id (snd (check_audio_file_fn I p w')) = outcome job_id w'"
      and cv: "\<And>p w'. outcome job_id (snd (convert_audio_to_wav_fn I p w')) = outcome job_id w'"
      and tr: "\<And>p w'. outcome job_id (snd (transcribe_audio_fn I p (update_status job_id) w'))
                         = outcome job_id w'"
      and ix: "\<And>t w'. outcome job_id (snd (index_transcript_fn I t w')) = outcome job_id w'"
      and su: "\<And>t n w'. outcome job_id (snd (summarize_text_fn I t n w')) = outcome job_id w'"
      and se: "\<And>t w'. outcome job_id (snd (analyze_sentiment_fn I t w')) = outcome job_id w'"
      and raised: "try_block I temp job_id options w = (Inl e, w1)"
      and before: "outcome job_id w = Some (False, None, None)"
  shows "outcome job_id w1 = Some (False, None, None)"
proof -
  obtain r1 wa where c1: "check_step I temp job_id w = (r1, wa)"
    by (cases "check_step I temp job_id w")
  have oa: "outcome job_id wa = Some (False, None, None)"
    using check_step_frame [of job_id I temp w] ck c1 before by simp
  show ?thesis
  proof (cases r1)
    case (Inl e1)
    then show ?thesis using raised c1 oa by (simp add: try_block_def seq_def)
  next
    case Inr1: (Inr u)
    obtain r2 wb where c2: "convert_step I temp job_id wa = (r2, wb)"
      by (cases "convert_step I temp job_id wa")
    have ob: "outcome job_id wb = Some (False, None, None)"
      using convert_step_frame [of job_id I temp wa] cv c2 oa by simp
    show ?thesis
    proof (cases r2)
      case (Inl e2)
      then show ?thesis using raised c1 Inr1 c2 ob by (simp add: try_block_def seq_def)
    next
      case (Inr wav)
      then have "analysis_steps I wav job_id options wb = (Inl e, w1)"
        using raised c1 Inr1 c2 by (simp add: try_block_def seq_def)
      then show ?thesis
        by (rule analysis_steps_frame [rotated 4]) (simp_all add: ob tr ix su se)
    qed
  qed
qed

text \<open>
  The stage functions of the repository write no field that decides the shape of a
  response, and with the dictionary of check_audio.py the try block always raises an
  exception that has a message.
\<close>

lemma repo_frames:
  "outcome job_id (snd (check_audio_file_fn (repo_imports R) p w)) = outcome job_id w"
  "outcome job_id (snd (convert_audio_to_wav_fn (repo_imports R) p w)) = outcome job_id w"
  "outcome job_id (snd (transcribe_audio_fn (repo_imports R) p (update_status job_id') w))
     = outcome job_id w"
  "outcome job_id (snd (index_transcript_fn (repo_imports R) t w)) = outcome job_id w"
  "outcome job_id (snd (summarize_text_fn (repo_imports R) t n w)) = outcome job_id w"
  "outcome job_id (snd (analyze_sentiment_fn (repo_imports R) t w)) = outcome job_id w"
  by (simp_all add: repo_imports_def split: prod.splits)

lemma repo_try_block_raises:
  assumes nokey: "\<And>p. check_audio (transcription R) p ''error'' = None"
      and fmt: "\<And>d e. format_audio_line R d = Inl e \<Longrightarrow> str_exn e \<noteq> []"
  shows "\<exists>e w1. try_block (repo_imports R) temp job_id options w = (Inl e, w1)
           \<and> str_exn e \<noteq> []"
proof -
  obtain r1 wa where c1: "check_step (repo_imports R) temp job_id w = (r1, wa)"
    by (cases "check_step (repo_imports R) temp job_id w")
  show ?thesis
  proof (cases r1)
    case (Inl e)
    then have "str_exn e \<noteq> []" using check_step_repo_raises c1 fmt by blast
    then show ?thesis using c1 Inl by (simp add: try_block_def seq_def)
  next
    case Inr1: (Inr u)
    obtain r2 wb where c2: "convert_step (repo_imports R) temp job_id wa = (r2, wb)"
      by (cases "convert_step (repo_imports R) temp job_id wa")
    show ?thesis
    proof (cases r2)
      case (Inl e)
      then have "str_exn e \<noteq> []" using convert_step_raises c2 by blast
      then show ?thesis using c1 Inr1 c2 Inl by (simp add: try_block_def seq_def)
    next
      case (Inr wav)
      have "\<exists>e w'. analysis_steps (repo_imports R) wav job_id options wb = (Inl e, w')
           \<and> str_exn e \<noteq> [] \<and> (\<forall>i. outcome i w' = outcome i wb)"
        by (rule analysis_steps_no_key_raises) (simp add: nokey)
      then show ?thesis using c1 Inr1 c2 Inr by (auto simp: try_block_def seq_def)
    qed
  qed
qed

lemma working_try_block:
  "try_block (repo_imports working_env) ''/tmp/upload.mp3'' ''job-1'' default_options one_job_world
     = (Inl (KeyError ''error''),
        update_status ''job-1'' 8 ''Checking audio file format...''
          (update_status ''job-1'' 5 ''Preparing audio for transcription...''
            (update_status ''job-1'' 25 ''Starting transcription...''
              (update_status ''job-1'' 20 ''Audio converted successfully''
                (update_status ''job-1'' 15 ''Converting audio to proper format...''
                  (update_status ''job-1'' 10 ''Audio file: 0.00s, 0Hz, 0 channel(s)''
                    (update_status ''job-1'' 5 ''Checking audio file format...''
                       one_job_world)))))))"
proof -
  have c: "check_step (repo_imports working_env) ''/tmp/upload.mp3'' ''job-1'' one_job_world =
             (Inr (), update_status ''job-1'' 10 ''Audio file: 0.00s, 0Hz, 0 channel(s)''
                        (update_status ''job-1'' 5 ''Checking audio file format...''
                           one_job_world))"
    by (rule check_step_ok [where d = "results_dict sound_file"])
       (simp_all add: repo_imports_def working_env_def working_transcription_def
          results_dict_no_error)
  have v: "\<And>w'. convert_step (repo_imports working_env) ''/tmp/upload.mp3'' ''job-1'' w' =
             (Inr ''/tmp/converted.wav'',
              update_status ''job-1'' 20 ''Audio converted successfully''
                (update_status ''job-1'' 15 ''Converting audio to proper format...'' w'))"
    by (rule convert_step_ok)
       (simp add: repo_imports_def working_env_def working_transcription_def)
  have a: "\<And>w'. analysis_steps (repo_imports working_env) ''/tmp/converted.wav'' ''job-1''
                   default_options w' =
           (Inl (KeyError ''error''),
            update_status ''job-1'' 8 ''Checking audio file format...''
              (update_status ''job-1'' 5 ''Preparing audio for transcription...''
                 (update_status ''job-1'' 25 ''Starting transcription...'' w')))"
    by (rule analysis_steps_key_error)
       (simp_all add: working_env_def working_transcription_def results_dict_no_error)
  show ?thesis by (simp add: try_block_def seq_def c v a)
qed

text \<open>
  C6. Let a job be freshly submitted, let the stage functions leave the fields "complete",
  "error" and "results" of its record alone, and let a stage raise an exception, at any
  point of the try block, whose message is not empty (as every exception has that the
  stages of the repository raise, \<open>repo_try_block_raises\<close>). Then the record ends with
  that message as its error, not complete, and with its results still None: nothing an
  earlier stage produced is stored. The status endpoint answers with the error shape,
  which carries the message and the error and nothing else, and it does so on every poll
  of that state.
\<close>

theorem failed_job_reports_error_only:
  assumes fresh: "outcome job_id w = Some (False, None, None)"
      and ck: "\<And>p w'. outcome job_id (snd (check_audio_file_fn I p w')) = outcome job_id w'"
      and cv: "\<And>p w'. outcome job_id (snd (convert_audio_to_wav_fn I p w')) = outcome job_id w'"
      and tr: "\<And>p w'. outcome job_id (snd (transcribe_audio_fn I p (update_status job_id) w'))
                         = outcome job_id w'"
      and ix: "\<And>t w'. outcome job_id (snd (index_transcript_fn I t w')) = outcome job_id w'"
      and su: "\<And>t n w'. outcome job_id (snd (summarize_text_fn I t n w')) = outcome job_id w'"
      and se: "\<And>t w'. outcome job_id (snd (analyze_sentiment_fn I t w')) = outcome job_id w'"
      and raised: "try_block I temp job_id options w = (Inl e, w1)"
      and msg: "str_exn e \<noteq> []"
  shows "outcome job_id (snd (process_audio_task I temp job_id options w))
           = Some (False, Some (str_exn e), None)
       \<and> get_job_status job_id (snd (process_audio_task I temp job_id options w))
           = Inr (ErrorResponse (''Error: '' @ str_exn e) (str_exn e))"
proof -
  have o1: "outcome job_id w1 = Some (False, None, None)"
    by (rule try_block_frame [where I = I and w = w and e = e and temp = temp
          and options = options])
       (simp_all add: ck cv tr ix su se raised fresh)
  obtain wp where run: "process_audio_task I temp job_id options w =
      (fst (on_exception job_id e w1), cleanup_files temp wp (snd (on_exception job_id e w1)))"
    using process_audio_task_try_block [of I temp job_id options w] raised by auto
  have "get_job_status job_id (cleanup_files temp wp (snd (on_exception job_id e w1)))
          = Inr (ErrorResponse (''Error: '' @ str_exn e) (str_exn e))"
    using status_after_on_exception [OF o1, of temp wp e] msg by simp
  moreover have "outcome job_id (snd (on_exception job_id e w1))
          = Some (False, Some (str_exn e), None)"
    using outcome_on_exception [OF o1, of e] .
  ultimately show ?thesis by (simp add: run)
qed

theorem failed_job_reports_error_only_witness:
  "outcome ''job-1'' (snd (process_audio_task (repo_imports working_env) ''/tmp/upload.mp3''
                             ''job-1'' default_options one_job_world))
     = Some (False, Some (str_exn (KeyError ''error'')), None)
   \<and> get_job_status ''job-1''
        (snd (process_audio_task (repo_imports working_env) ''/tmp/upload.mp3'' ''job-1''
                default_options one_job_world))
     = Inr (ErrorResponse (''Error: '' @ str_exn (KeyError ''error''))
                          (str_exn (KeyError ''error'')))"
  by (rule failed_job_reports_error_only [OF outcome_one_job_world _ _ _ _ _ _ working_try_block])
     (simp_all add: repo_frames)

section \<open>Properties of the submission endpoint\<close>

text \<open>
  C3. A submission whose payload has length 0 is rejected with status 400 and the
  detail "File is empty (0 bytes)", whatever its name, content type and options, and
  the process state is the one before the request: no record is added to the registry,
  no background task is scheduled, no temporary file is written. The identifier drawn
  at the top of the handler is neither stored nor returned.
\<close>

theorem empty_upload_rejected:
  assumes "length (file_content file) = 0"
  shows "process_audio X file options w =
           (Rejected (HTTPException 400 ''File is empty (0 bytes)''), w)"
  using assms by (simp add: process_audio_def)

theorem empty_upload_rejected_witness:
  "process_audio quiet_env (talk_upload\<lparr>file_content := []\<rparr>) default_options start_world =
     (Rejected (HTTPException 400 ''File is empty (0 bytes)''), start_world)
   \<and> job_status (snd (process_audio quiet_env (talk_upload\<lparr>file_content := []\<rparr>)
                         default_options start_world)) ''job-1'' = None
   \<and> background_tasks (snd (process_audio quiet_env (talk_upload\<lparr>file_content := []\<rparr>)
                         default_options start_world)) = []"
  using empty_upload_rejected [of "talk_upload\<lparr>file_content := []\<rparr>" quiet_env
          default_options start_world]
  by (simp add: start_world_def)

text \<open>A submission with content whose probes raise nothing is accepted.\<close>

lemma process_audio_accepted:
  assumes "file_content file \<noteq> []"
      and "\<And>p. magic_probe X p = None" and "\<And>p. validation_probe X p = None"
  shows "fst (process_audio X file options w) = Accepted (uuid4 X) ''processing''"
    and "job_status (snd (process_audio X file options w)) (uuid4 X) = Some (new_job (now w))"
    and "\<exists>path. background_tasks (snd (process_audio X file options w))
                  = background_tasks w @ [(path, uuid4 X, options)]"
  using assms by (simp_all add: process_audio_def Let_def)

lemma construct_options_fields:
  assumes "map_of kvs ''num_summary_points'' = Some (JInt n)"
      and "map_of kvs ''summary_style'' = Some (JStr st)"
  shows "construct_options V (JObj kvs) = Inr \<lparr>num_summary_points = n, summary_style = st\<rparr>"
  using assms by (simp add: int_field_def str_field_def)

text \<open>
  C7, as the code has it. The options are 5 points and style "Bullets" when no options
  text is sent, and each key missing from the JSON object takes its own default. A point
  count given as a JSON integer and a style given as a JSON string are taken as they are,
  whatever their value: the model declares \<open>int\<close> and \<open>str\<close> and checks neither a
  range nor an enumeration. A submission with content is then accepted, and the task
  scheduled for it carries exactly these options.
\<close>

theorem options_taken_as_given:
  assumes "s \<noteq> []" and "json_loads s = Inr (JObj kvs)"
      and "map_of kvs ''num_summary_points'' = None \<and> n = 5
           \<or> map_of kvs ''num_summary_points'' = Some (JInt n)"
      and "map_of kvs ''summary_style'' = None \<and> st = ''Bullets''
           \<or> map_of kvs ''summary_style'' = Some (JStr st)"
      and "file_content file \<noteq> []"
      and "\<And>p. magic_probe X p = None" and "\<And>p. validation_probe X p = None"
  shows "get_options json_loads V None
           = \<lparr>num_summary_points = 5, summary_style = ''Bullets''\<rparr>
       \<and> get_options json_loads V (Some s) = \<lparr>num_summary_points = n, summary_style = st\<rparr>
       \<and> fst (process_audio X file (get_options json_loads V (Some s)) w)
           = Accepted (uuid4 X) ''processing''
       \<and> (\<exists>path. background_tasks
                    (snd (process_audio X file (get_options json_loads V (Some s)) w))
                  = background_tasks w @
                    [(path, uuid4 X, \<lparr>num_summary_points = n, summary_style = st\<rparr>)])"
proof -
  have d: "get_options json_loads V None
             = \<lparr>num_summary_points = 5, summary_style = ''Bullets''\<rparr>"
    by (simp add: get_options_def default_options_def)
  have g: "get_options json_loads V (Some s) = \<lparr>num_summary_points = n, summary_style = st\<rparr>"
    using assms(1-4)
    by (auto simp: get_options_def int_field_def str_field_def)
  show ?thesis
    using process_audio_accepted(1,3) [OF assms(5-7), of "get_options json_loads V (Some s)" w]
    by (simp add: d g)
qed

lemma wide_options_text_nonempty: "wide_options_text \<noteq> []"
  by (simp add: wide_options_text_def)

lemma points_only_text_nonempty: "points_only_text \<noteq> []"
  by (simp add: points_only_text_def)

theorem options_taken_as_given_witness:
  "get_options wide_options_loads strict_validation (Some wide_options_text)
     = \<lparr>num_summary_points = 50, summary_style = ''Table''\<rparr>
   \<and> get_options points_only_loads strict_validation (Some points_only_text)
     = \<lparr>num_summary_points = 7, summary_style = ''Bullets''\<rparr>
   \<and> fst (process_audio quiet_env talk_upload
            (get_options points_only_loads strict_validation (Some points_only_text))
            start_world)
     = Accepted ''job-1'' ''processing''
   \<and> (\<exists>path. background_tasks
                (snd (process_audio quiet_env talk_upload
                        (get_options points_only_loads strict_validation
                           (Some points_only_text))
                        start_world))
              = [(path, ''job-1'', \<lparr>num_summary_points = 7, summary_style = ''Bullets''\<rparr>)])"
proof -
  have c: "file_content talk_upload \<noteq> []"
    by (simp add: talk_upload_def)
  have p: "\<And>p. magic_probe quiet_env p = None" "\<And>p. validation_probe quiet_env p = None"
    by (simp_all add: quiet_env_def)
  have u: "uuid4 quiet_env = ''job-1''"
    by (simp add: quiet_env_def)
  have b: "background_tasks start_world = []"
    by (simp add: start_world_def)
  have w: "wide_options_loads wide_options_text
             = Inr (JObj [(''num_summary_points'', JInt 50), (''summary_style'', JStr ''Table'')])"
    by (simp add: wide_options_loads_def)
  have o: "points_only_loads points_only_text = Inr (JObj [(''num_summary_points'', JInt 7)])"
    by (simp add: points_only_loads_def)
  have wide: "get_options wide_options_loads strict_validation None
           = \<lparr>num_summary_points = 5, summary_style = ''Bullets''\<rparr>
       \<and> get_options wide_options_loads strict_validation (Some wide_options_text)
           = \<lparr>num_summary_points = 50, summary_style = ''Table''\<rparr>
       \<and> fst (process_audio quiet_env talk_upload
                (get_options wide_options_loads strict_validation (Some wide_options_text))
                start_world)
           = Accepted (uuid4 quiet_env) ''processing''
       \<and> (\<exists>path. background_tasks
                    (snd (process_audio quiet_env talk_upload
                            (get_options wide_options_loads strict_validation
                               (Some wide_options_text)) start_world))
                  = background_tasks start_world @
                    [(path, uuid4 quiet_env,
                      \<lparr>num_summary_points = 50, summary_style = ''Table''\<rparr>)])"
    by (rule options_taken_as_given
          [where kvs = "[(''num_summary_points'', JInt 50), (''summary_style'', JStr ''Table'')]"])
       (simp_all add: wide_options_text_nonempty w c p)
  have only: "get_options points_only_loads strict_validation None
           = \<lparr>num_summary_points = 5, summary_style = ''Bullets''\<rparr>
       \<and> get_options points_only_loads strict_validation (Some points_only_text)
           = \<lparr>num_summary_points = 7, summary_style = ''Bullets''\<rparr>
       \<and> fst (process_audio quiet_env talk_upload
                (get_options points_only_loads strict_validation (Some points_only_text))
                start_world)
           = Accepted (uuid4 quiet_env) ''processing''
       \<and> (\<exists>path. background_tasks
                    (snd (process_audio quiet_env talk_upload
                            (get_options points_only_loads strict_validation
                               (Some points_only_text)) start_world))
                  = background_tasks start_world @
                    [(path, uuid4 quiet_env,
                      \<lparr>num_summary_points = 7, summary_style = ''Bullets''\<rparr>)])"
    by (rule options_taken_as_given [where kvs = "[(''num_summary_points'', JInt 7)]"])
       (simp_all add: points_only_text_nonempty o c p)
  show ?thesis
    using wide only unfolding u b append_Nil by blast
qed

text \<open>
  The claim C7 as stated fails: a submission whose options text asks for 50 points in a
  style "Table" is accepted, and the task scheduled for it carries exactly these
  values.
\<close>

theorem out_of_range_options_proceed:
  "\<not> (3 \<le> num_summary_points
              (get_options wide_options_loads strict_validation (Some wide_options_text))
       \<and> num_summary_points
              (get_options wide_options_loads strict_validation (Some wide_options_text)) \<le> 10)
   \<and> summary_style (get_options wide_options_loads strict_validation (Some wide_options_text))
        \<notin> {''Bullets'', ''Paragraph''}
   \<and> background_tasks
        (snd (process_audio quiet_env talk_upload
               (get_options wide_options_loads strict_validation (Some wide_options_text))
               start_world))
      = [(''/tmp/upload.mp3'', ''job-1'',
          \<lparr>num_summary_points = 50, summary_style = ''Table''\<rparr>)]"
proof -
  have g: "get_options wide_options_loads strict_validation (Some wide_options_text)
             = \<lparr>num_summary_points = 50, summary_style = ''Table''\<rparr>"
    by (simp add: get_options_def wide_options_loads_def wide_options_text_nonempty
          int_field_def str_field_def)
  have e: "choose_extension (Some ''talk.mp3'') (Some ''audio/mpeg'') = ''mp3''"
    by (simp add: choose_extension_def filename_extension_def split_def lower_def
          lower_char_def known_extensions_def)
  show ?thesis
    by (simp add: g e process_audio_def talk_upload_def quiet_env_def start_world_def Let_def)
qed

text \<open>
  C10. When the options form value is absent or empty, is not valid JSON, or does not
  construct the options model (it is not an object, or a field is rejected),
  \<open>get_options\<close> returns the defaults 5 and "Bullets" and raises nothing; a
  submission with content whose probes raise nothing is then accepted, and its task
  carries the defaults.
\<close>

theorem malformed_options_default:
  assumes "options = None \<or> options = Some []
           \<or> (\<exists>s e. options = Some s \<and> json_loads s = Inl e)
           \<or> (\<exists>s v e. options = Some s \<and> json_loads s = Inr v
                        \<and> construct_options V v = Inl e)"
      and "file_content file \<noteq> []"
      and "\<And>p. magic_probe X p = None" and "\<And>p. validation_probe X p = None"
  shows "get_options json_loads V options
           = \<lparr>num_summary_points = 5, summary_style = ''Bullets''\<rparr>
       \<and> fst (process_audio X file (get_options json_loads V options) w)
           = Accepted (uuid4 X) ''processing''
       \<and> (\<exists>path. background_tasks
                    (snd (process_audio X file (get_options json_loads V options) w))
                  = background_tasks w @
                    [(path, uuid4 X, \<lparr>num_summary_points = 5, summary_style = ''Bullets''\<rparr>)])"
proof -
  have g: "get_options json_loads V options
             = \<lparr>num_summary_points = 5, summary_style = ''Bullets''\<rparr>"
    using assms(1) by (auto simp: get_options_def default_options_def)
  show ?thesis
    using process_audio_accepted(1,3) [OF assms(2-4), of "get_options json_loads V options" w]
    by (simp add: g)
qed

theorem malformed_options_default_witness:
  "get_options wide_options_loads strict_validation (Some ''{points: many'')
     = \<lparr>num_summary_points = 5, summary_style = ''Bullets''\<rparr>
   \<and> fst (process_audio quiet_env talk_upload
            (get_options wide_options_loads strict_validation (Some ''{points: many''))
            start_world)
     = Accepted ''job-1'' ''processing''"
proof -
  have m: "Some ''{points: many'' = None \<or> Some ''{points: many'' = Some []
           \<or> (\<exists>s e. Some ''{points: many'' = Some s \<and> wide_options_loads s = Inl e)
           \<or> (\<exists>s v e. Some ''{points: many'' = Some s \<and> wide_options_loads s = Inr v
                        \<and> construct_options strict_validation v = Inl e)"
    by (simp add: wide_options_loads_def wide_options_text_def)
  have c: "file_content talk_upload \<noteq> []"
    by (simp add: talk_upload_def)
  have p: "\<And>p. magic_probe quiet_env p = None" "\<And>p. validation_probe quiet_env p = None"
    by (simp_all add: quiet_env_def)
  have u: "uuid4 quiet_env = ''job-1''"
    by (simp add: quiet_env_def)
  show ?thesis
    using malformed_options_default [OF m c p, of start_world]
    unfolding u by blast
qed


section \<open>Properties of the search\<close>

lemma set_argsort: "set (argsort similarity) = {0..<length similarity}"
  by (simp add: argsort_def)

lemma set_last_n: "set (last_n n xs) \<subseteq> set xs"
  by (auto simp: last_n_def dest: in_set_dropD)

lemma strip_ustr_nonempty: "ustr ''budget'' \<noteq> [] \<and> strip (ustr ''budget'') = ustr ''budget''"
  by (simp add: ustr_def strip_def isspace_def)

text \<open>The rows the body of the try block returns carry positive scores or the sentinel.\<close>

lemma search_body_rows:
  assumes "search_body v sents query n = Inr rows"
  shows "rows \<noteq> [] \<and> (\<forall>row \<in> set rows. 0 \<le> snd row)"
proof -
  obtain similarity where sim: "v query = Inr similarity"
    using assms by (auto simp: search_body_def split: sum.splits)
  let ?hits = "filter (\<lambda>i. similarity ! i > 0) (rev (last_n n (argsort similarity)))"
  show ?thesis
  proof (cases "?hits = []")
    case True
    then show ?thesis using assms sim
      by (auto simp: search_body_def Let_def split: if_splits)
  next
    case False
    then have "rows = map (\<lambda>i. (sents ! i, similarity ! i)) ?hits"
      using assms sim by (auto simp: search_body_def Let_def split: if_splits)
    then show ?thesis using False by auto
  qed
qed

lemma search_body_no_match:
  assumes "v query = Inr similarity" and "\<forall>x \<in> set similarity. x \<le> 0"
  shows "search_body v sents query n = Inr [(ustr ''No matching results found.'', 0)]"
proof -
  have nopos: "\<not> similarity ! i > 0" if "i \<in> set (last_n n (argsort similarity))" for i
  proof -
    have "i \<in> set (argsort similarity)"
      using that set_last_n [of n "argsort similarity"] by auto
    then have "i < length similarity" by (simp add: set_argsort)
    then have "similarity ! i \<le> 0" using assms(2) by simp
    then show ?thesis by simp
  qed
  then have "filter (\<lambda>i. similarity ! i > 0) (rev (last_n n (argsort similarity))) = []"
    by (simp add: filter_empty_conv)
  then show ?thesis using assms(1) nopos by (auto simp: search_body_def Let_def)
qed

text \<open>
  C8, as the code has it. The search raises nothing: it always returns a list of rows,
  never an empty one, and every score in it is non-negative. When nothing has been
  indexed, and when no indexed sentence has a positive similarity to the query, the list
  has exactly one row, which holds a sentinel message in place of a sentence and the
  score 0.
\<close>

theorem search_returns_rows_or_sentinel:
  "\<exists>rows. search S query n = Inr rows \<and> rows \<noteq> []
     \<and> (\<forall>row \<in> set rows. 0 \<le> snd row)
     \<and> (vectorizer S = None \<or> sentences S = []
          \<longrightarrow> rows = [(ustr ''No transcript has been indexed yet.'', 0)])
     \<and> (\<forall>v similarity.
            vectorizer S = Some v \<and> sentences S \<noteq> [] \<and> strip query \<noteq> []
            \<and> v (strip query) = Inr similarity \<and> (\<forall>x \<in> set similarity. x \<le> 0)
          \<longrightarrow> rows = [(ustr ''No matching results found.'', 0)])"
proof (cases "vectorizer S")
  case None
  then show ?thesis by (simp add: search_def)
next
  case (Some v)
  show ?thesis
  proof (cases "sentences S = []")
    case True
    then show ?thesis using Some by (simp add: search_def)
  next
    case ne: False
    show ?thesis
    proof (cases "strip query = []")
      case True
      then show ?thesis using Some ne by (simp add: search_def)
    next
      case q: False
      show ?thesis
      proof (cases "search_body v (sentences S) (strip query) n")
        case (Inl e)
        have "\<And>similarity. v (strip query) = Inr similarity \<Longrightarrow>
                \<forall>x \<in> set similarity. x \<le> 0 \<Longrightarrow> False"
          using search_body_no_match [of v "strip query" _ "sentences S" n] Inl by simp
        then show ?thesis using Some ne q Inl by (auto simp: search_def)
      next
        case (Inr rows)
        have r: "rows \<noteq> [] \<and> (\<forall>row \<in> set rows. 0 \<le> snd row)"
          using search_body_rows [OF Inr] .
        have "\<And>similarity. v (strip query) = Inr similarity \<Longrightarrow>
                \<forall>x \<in> set similarity. x \<le> 0 \<Longrightarrow>
                rows = [(ustr ''No matching results found.'', 0)]"
          using search_body_no_match [of v "strip query" _ "sentences S" n] Inr by simp
        then show ?thesis using Some ne q Inr r by (auto simp: search_def)
      qed
    qed
  qed
qed

theorem search_returns_rows_or_sentinel_witness:
  "search (meeting_search start_world) (ustr ''budget'') 5
     = Inr [(ustr ''No transcript has been indexed yet.'', 0)]
   \<and> search unmatched_index (ustr ''budget'') 5
     = Inr [(ustr ''No matching results found.'', 0)]"
proof -
  have a: "vectorizer (meeting_search start_world) = None"
    by (simp add: start_world_def)
  have b: "vectorizer unmatched_index = Some (\<lambda>q. Inr [0, 0])"
          "sentences unmatched_index \<noteq> []"
          "\<forall>x \<in> set [0, 0::real]. x \<le> 0"
    by (simp_all add: unmatched_index_def)
  show ?thesis
    using search_returns_rows_or_sentinel [of "meeting_search start_world" "ustr ''budget''" 5]
          search_returns_rows_or_sentinel [of unmatched_index "ustr ''budget''" 5]
          a b strip_ustr_nonempty
    by auto
qed

text \<open>
  The claim C8 as stated fails: with nothing indexed, and with no matching sentence, the
  list returned to the client is not empty.
\<close>

theorem search_sentinel_is_a_row:
  "search_transcript (ustr ''budget'') start_world \<noteq> Inr []
   \<and> search_transcript (ustr ''budget'') start_world
        = Inr [(ustr ''No transcript has been indexed yet.'', 0)]
   \<and> search unmatched_index (ustr ''budget'') 5 \<noteq> Inr []"
proof -
  have "search unmatched_index (ustr ''budget'') 5
          = Inr [(ustr ''No matching results found.'', 0)]"
    using search_body_no_match [of "\<lambda>q. Inr [0, 0]" "ustr ''budget''" "[0, 0]"
            "sentences unmatched_index" 5] strip_ustr_nonempty
    by (simp add: search_def unmatched_index_def)
  then show ?thesis
    by (simp add: search_transcript_def search_meeting_def search_def start_world_def)
qed


section \<open>Properties of the summarizer\<close>

subsection \<open>Text operations\<close>





lemma split_nonempty: "split_from sep cur s \<noteq> []"
  by (induction sep cur s rule: split_from.induct) auto









subsection \<open>Every path returns a bullet list of clean items\<close>











subsection \<open>The summary stored for a job\<close>











end
